theory Spec2Isabelle
  imports Complex_Main
begin

section \<open>Data model (frontend/src/types)\<close>

text \<open>
  A JavaScript number is modelled by the real number it stands for, and a computation
  that yields \<open>NaN\<close> in the source yields \<open>None\<close> in the model. The arithmetic of
  the snapping code rounds to doubles (section Double arithmetic). An optional
  property (\<open>x?: number\<close>) is an \<open>option\<close>, \<open>None\<close> standing for \<open>undefined\<close>.
  The record fields of an element carry the prefix \<open>el_\<close> (the source's \<open>x\<close>,
  \<open>y\<close>, \<open>type\<close>, ... would shadow variables); \<open>el_id\<close> is the untyped
  \<open>(el as any).id\<close> the store reads.
\<close>

record LayoutElement =
  el_type :: string
  el_asset :: "string option"
  el_x :: "real option"
  el_y :: "real option"
  el_width :: "real option"
  el_height :: "real option"
  el_z :: "real option"
  el_text :: "string option"
  el_font_size :: "real option"
  el_color :: "string option"
  el_font_family :: "string option"
  el_rotation :: "real option"
  el_id :: "string option"

record Layout =
  layout_id :: string
  score :: real
  elements :: "LayoutElement list"

datatype IssueSeverity = hard | warn

record BoundingBox =
  bb_x :: real
  bb_y :: real
  bb_width :: real
  bb_height :: real

record ValidationIssue =
  severity :: IssueSeverity
  code :: string
  message :: string
  fix_suggestion :: "string option"
  element_id :: "string option"
  bounding_box :: "BoundingBox option"

record ValidationResult =
  ok :: bool
  issues :: "ValidationIssue list"
  checked_rules :: "string list"

text \<open>An element literal \<open>{ type: t }\<close> with every optional property absent.\<close>

definition mk_element :: "string \<Rightarrow> LayoutElement" where
  "mk_element t =
     \<lparr>el_type = t, el_asset = None, el_x = None, el_y = None, el_width = None,
      el_height = None, el_z = None, el_text = None, el_font_size = None,
      el_color = None, el_font_family = None, el_rotation = None, el_id = None\<rparr>"

section \<open>The editor store (frontend/src/store/index.ts)\<close>

definition MAX_HISTORY :: int where
  "MAX_HISTORY = 50"

record StoreState =
  layout :: "Layout option"
  history :: "Layout list"
  historyIndex :: int
  validationResult :: "ValidationResult option"
  isLoading :: bool

text \<open>The default editable layout, which is also the single initial history entry.\<close>

definition default_layout :: Layout where
  "default_layout =
     \<lparr>layout_id = ''default-layout'', score = 1,
      elements =
        [(mk_element ''background'')\<lparr>el_color := Some ''#FFFFFF''\<rparr>,
         (mk_element ''headline'')\<lparr>el_text := Some ''Click to edit headline'',
            el_x := Some 10, el_y := Some 30, el_width := Some 80, el_height := Some 15,
            el_font_size := Some 48, el_color := Some ''#1F2937''\<rparr>,
         (mk_element ''subhead'')\<lparr>el_text := Some ''Add your subheadline here'',
            el_x := Some 10, el_y := Some 48, el_width := Some 80, el_height := Some 8,
            el_font_size := Some 24, el_color := Some ''#6B7280''\<rparr>,
         (mk_element ''tesco_tag'')\<lparr>el_text := Some ''Available at Tesco'',
            el_x := Some 70, el_y := Some 85, el_width := Some 25, el_height := Some 8\<rparr>]\<rparr>"

definition initial_store :: StoreState where
  "initial_store =
     \<lparr>layout = Some default_layout, history = [default_layout], historyIndex = 0,
      validationResult = None, isLoading = False\<rparr>"

text \<open>
  \<open>Array.prototype.slice(0, end)\<close> for an integer \<open>end\<close>: a negative end counts
  from the back, and the result is clipped to the array.
\<close>

definition slice0 :: "'a list \<Rightarrow> int \<Rightarrow> 'a list" where
  "slice0 xs e =
     (let n = int (length xs);
          k = (if e < 0 then max (n + e) 0 else min e n)
      in take (nat k) xs)"

text \<open>
  \<open>setLayout\<close>: a non-null layout is appended (as a deep copy, which is the same
  value) after the entries up to \<open>historyIndex\<close>; the oldest entry is shifted out
  when the list outgrows \<open>MAX_HISTORY\<close>. A null layout leaves the history alone.
\<close>

definition setLayout :: "Layout option \<Rightarrow> StoreState \<Rightarrow> StoreState" where
  "setLayout lo s =
     (case lo of
        Some l \<Rightarrow>
          (let pushed = slice0 (history s) (historyIndex s + 1) @ [l];
               newHistory = (if int (length pushed) > MAX_HISTORY then tl pushed else pushed)
           in s\<lparr>layout := Some l, history := newHistory,
                historyIndex := int (length newHistory) - 1\<rparr>)
      | None \<Rightarrow> s\<lparr>layout := None\<rparr>)"

text \<open>
  \<open>Partial<LayoutElement>\<close>: \<open>None\<close> in a field means that the key is absent from
  the update object, so the spread \<open>{ ...el, ...updates }\<close> keeps the old value.
\<close>

record ElementUpdates =
  up_type :: "string option"
  up_asset :: "string option"
  up_x :: "real option"
  up_y :: "real option"
  up_width :: "real option"
  up_height :: "real option"
  up_z :: "real option"
  up_text :: "string option"
  up_font_size :: "real option"
  up_color :: "string option"
  up_font_family :: "string option"
  up_rotation :: "real option"
  up_id :: "string option"

definition override :: "'a option \<Rightarrow> 'a option \<Rightarrow> 'a option" where
  "override old new = (case new of None \<Rightarrow> old | Some v \<Rightarrow> Some v)"

definition spread_updates :: "LayoutElement \<Rightarrow> ElementUpdates \<Rightarrow> LayoutElement" where
  "spread_updates e u =
     \<lparr>el_type = (case up_type u of None \<Rightarrow> el_type e | Some t \<Rightarrow> t),
      el_asset = override (el_asset e) (up_asset u),
      el_x = override (el_x e) (up_x u),
      el_y = override (el_y e) (up_y u),
      el_width = override (el_width e) (up_width u),
      el_height = override (el_height e) (up_height u),
      el_z = override (el_z e) (up_z u),
      el_text = override (el_text e) (up_text u),
      el_font_size = override (el_font_size e) (up_font_size u),
      el_color = override (el_color e) (up_color u),
      el_font_family = override (el_font_family e) (up_font_family u),
      el_rotation = override (el_rotation e) (up_rotation u),
      el_id = override (el_id e) (up_id u)\<rparr>"

definition matches_id :: "string \<Rightarrow> LayoutElement \<Rightarrow> bool" where
  "matches_id i e = (el_asset e = Some i \<or> el_id e = Some i)"

definition updateElement :: "string \<Rightarrow> ElementUpdates \<Rightarrow> StoreState \<Rightarrow> StoreState" where
  "updateElement i u s =
     (case layout s of
        None \<Rightarrow> s
      | Some l \<Rightarrow>
          setLayout
            (Some (l\<lparr>elements :=
               map (\<lambda>e. if matches_id i e then spread_updates e u else e) (elements l)\<rparr>)) s)"

definition addElement :: "LayoutElement \<Rightarrow> StoreState \<Rightarrow> StoreState" where
  "addElement e s =
     (case layout s of
        None \<Rightarrow> s
      | Some l \<Rightarrow> setLayout (Some (l\<lparr>elements := elements l @ [e]\<rparr>)) s)"

definition removeElement :: "string \<Rightarrow> StoreState \<Rightarrow> StoreState" where
  "removeElement i s =
     (case layout s of
        None \<Rightarrow> s
      | Some l \<Rightarrow>
          setLayout
            (Some (l\<lparr>elements :=
               filter (\<lambda>e. el_asset e \<noteq> Some i \<and> el_id e \<noteq> Some i) (elements l)\<rparr>)) s)"

definition canUndo :: "StoreState \<Rightarrow> bool" where
  "canUndo s = (historyIndex s > 0)"

definition canRedo :: "StoreState \<Rightarrow> bool" where
  "canRedo s = (historyIndex s < int (length (history s)) - 1)"

text \<open>
  \<open>history[newIndex]\<close> outside the array is \<open>undefined\<close>, and
  \<open>JSON.parse(JSON.stringify(undefined))\<close> throws before \<open>set\<close> runs: the result
  \<open>None\<close> of \<open>undo\<close> and \<open>redo\<close> is that exception.
\<close>

definition history_at :: "Layout list \<Rightarrow> int \<Rightarrow> Layout option" where
  "history_at h i = (if 0 \<le> i \<and> i < int (length h) then Some (h ! nat i) else None)"

definition undo :: "StoreState \<Rightarrow> StoreState option" where
  "undo s =
     (if historyIndex s > 0 then
        (let newIndex = historyIndex s - 1 in
         case history_at (history s) newIndex of
           None \<Rightarrow> None
         | Some l \<Rightarrow> Some (s\<lparr>historyIndex := newIndex, layout := Some l\<rparr>))
      else Some s)"

definition redo :: "StoreState \<Rightarrow> StoreState option" where
  "redo s =
     (if historyIndex s < int (length (history s)) - 1 then
        (let newIndex = historyIndex s + 1 in
         case history_at (history s) newIndex of
           None \<Rightarrow> None
         | Some l \<Rightarrow> Some (s\<lparr>historyIndex := newIndex, layout := Some l\<rparr>))
      else Some s)"

text \<open>The store operations as commands, and one command applied to a state.\<close>

datatype StoreAction =
    SetLayout Layout
  | AddElement LayoutElement
  | UpdateElement string ElementUpdates
  | RemoveElement string
  | Undo
  | Redo

fun store_step :: "StoreAction \<Rightarrow> StoreState \<Rightarrow> StoreState option" where
  "store_step (SetLayout l) s = Some (setLayout (Some l) s)"
| "store_step (AddElement e) s = Some (addElement e s)"
| "store_step (UpdateElement i u) s = Some (updateElement i u s)"
| "store_step (RemoveElement i) s = Some (removeElement i s)"
| "store_step Undo s = undo s"
| "store_step Redo s = redo s"

definition history_inv :: "StoreState \<Rightarrow> bool" where
  "history_inv s =
     (0 \<le> historyIndex s \<and> historyIndex s \<le> int (length (history s)) - 1
      \<and> int (length (history s)) \<le> MAX_HISTORY)"

section \<open>Export gating (Toolbar, DesignAssistant)\<close>

text \<open>
  Toolbar: \<open>hasErrors = validationResult?.issues.some(i => i.severity === 'hard')\<close> is
  \<open>undefined\<close> without a result; the Export button is disabled when
  \<open>isLoading || hasErrors\<close> is truthy.
\<close>

definition hasErrors :: "ValidationResult option \<Rightarrow> bool option" where
  "hasErrors vr = map_option (\<lambda>r. list_ex (\<lambda>i. severity i = hard) (issues r)) vr"

definition truthy :: "bool option \<Rightarrow> bool" where
  "truthy b = (case b of None \<Rightarrow> False | Some v \<Rightarrow> v)"

definition export_disabled :: "StoreState \<Rightarrow> bool" where
  "export_disabled s = (isLoading s \<or> truthy (hasErrors (validationResult s)))"

text \<open>
  DesignAssistant: \<open>issues = validationResult?.issues || []\<close>, the hard ones are
  filtered out of it, and \<open>isExportReady = hardIssues.length === 0\<close>.
\<close>

definition hardIssues :: "ValidationResult option \<Rightarrow> ValidationIssue list" where
  "hardIssues vr =
     filter (\<lambda>i. severity i = hard) (case vr of None \<Rightarrow> [] | Some r \<Rightarrow> issues r)"

definition isExportReady :: "ValidationResult option \<Rightarrow> bool" where
  "isExportReady vr = (length (hardIssues vr) = 0)"

text \<open>
  App: the Export button of the Toolbar and the keyboard shortcut both call
  \<open>setShowExportDialog(true)\<close>, which opens the export dialog. A disabled button
  does not fire its click handler. The results are the value of \<open>showExportDialog\<close>
  after the event; the \<open>g\<close> shortcut starts a generation and leaves it alone.
\<close>

definition onExport_click :: "StoreState \<Rightarrow> bool \<Rightarrow> bool" where
  "onExport_click s showExportDialog = (if export_disabled s then showExportDialog else True)"

record KeyboardEvent =
  ctrlKey :: bool
  metaKey :: bool
  key :: string

definition toLowerCase :: "string \<Rightarrow> string" where
  "toLowerCase s =
     map (\<lambda>c. let n = (of_char c :: nat) in
               if 65 \<le> n \<and> n \<le> 90 then char_of (n + 32) else c) s"

definition handleKeyDown :: "KeyboardEvent \<Rightarrow> StoreState \<Rightarrow> bool \<Rightarrow> bool" where
  "handleKeyDown e s showExportDialog =
     (if ctrlKey e \<or> metaKey e then
        (if toLowerCase (key e) = ''e'' then
           (if \<not> isLoading s then True else showExportDialog)
         else showExportDialog)
      else showExportDialog)"

section \<open>JavaScript string helpers\<close>

text \<open>
  Strings are ASCII in the model. \<open>String.prototype.replace(c, '')\<close> with a string
  pattern removes the first occurrence only.
\<close>

fun remove_first :: "char \<Rightarrow> string \<Rightarrow> string" where
  "remove_first c [] = []"
| "remove_first c (d # ds) = (if d = c then ds else d # remove_first c ds)"

definition substring :: "string \<Rightarrow> nat \<Rightarrow> nat \<Rightarrow> string" where
  "substring s a b = (let lo = min a b; hi = max a b in take (hi - lo) (drop lo s))"

definition substr :: "string \<Rightarrow> nat \<Rightarrow> nat \<Rightarrow> string" where
  "substr s start len = take len (drop start s)"

definition hex_digit :: "char \<Rightarrow> nat option" where
  "hex_digit c =
     (let n = (of_char c :: nat) in
      if 48 \<le> n \<and> n \<le> 57 then Some (n - 48)
      else if 65 \<le> n \<and> n \<le> 70 then Some (n - 55)
      else if 97 \<le> n \<and> n \<le> 102 then Some (n - 87)
      else None)"

fun hex_prefix :: "string \<Rightarrow> nat list" where
  "hex_prefix [] = []"
| "hex_prefix (c # cs) = (case hex_digit c of None \<Rightarrow> [] | Some d \<Rightarrow> d # hex_prefix cs)"

definition hex_value :: "nat list \<Rightarrow> nat" where
  "hex_value ds = foldl (\<lambda>a d. 16 * a + d) 0 ds"

definition is_space :: "char \<Rightarrow> bool" where
  "is_space c = (let n = (of_char c :: nat) in (9 \<le> n \<and> n \<le> 13) \<or> n = 32)"

fun strip_sign :: "string \<Rightarrow> bool \<times> string" where
  "strip_sign (c # cs) =
     (if c = CHR ''-'' then (True, cs) else if c = CHR ''+'' then (False, cs)
      else (False, c # cs))"
| "strip_sign [] = (False, [])"

fun strip_0x :: "string \<Rightarrow> string" where
  "strip_0x (a # b # cs) =
     (if a = CHR ''0'' \<and> (b = CHR ''x'' \<or> b = CHR ''X'') then cs else a # b # cs)"
| "strip_0x cs = cs"

text \<open>
  \<open>parseInt(s, 16)\<close>: leading white space, a sign and a \<open>0x\<close> prefix are skipped,
  then the longest run of hexadecimal digits is read; \<open>None\<close> is \<open>NaN\<close> (no digit).
\<close>

definition parseInt16 :: "string \<Rightarrow> int option" where
  "parseInt16 s =
     (let (neg, s2) = strip_sign (dropWhile is_space s);
          ds = hex_prefix (strip_0x s2)
      in if ds = [] then None
         else Some ((if neg then - 1 else 1) * int (hex_value ds)))"

text \<open>\<open>v || 0\<close> on an optional number, and \<open>s || d\<close> on an optional string.\<close>

definition num_or0 :: "real option \<Rightarrow> real" where
  "num_or0 v = (case v of None \<Rightarrow> 0 | Some r \<Rightarrow> r)"

definition str_or :: "string option \<Rightarrow> string \<Rightarrow> string" where
  "str_or v d = (case v of None \<Rightarrow> d | Some s \<Rightarrow> if s = [] then d else s)"

section \<open>Auto-fix dispatch (ValidatorPanel, DesignAssistant)\<close>

text \<open>
  Both components carry their own \<open>isLightColor\<close>; the one of ValidatorPanel cuts
  the channels with \<open>substring\<close>, the one of DesignAssistant with \<open>substr\<close>. A
  channel that does not parse makes the brightness \<open>NaN\<close>, and the comparison false.
\<close>

definition brightness :: "int option \<Rightarrow> int option \<Rightarrow> int option \<Rightarrow> real option" where
  "brightness r g b =
     (case (r, g, b) of
        (Some rv, Some gv, Some bv) \<Rightarrow> Some (real_of_int (rv * 299 + gv * 587 + bv * 114) / 1000)
      | _ \<Rightarrow> None)"

definition gt_num :: "real option \<Rightarrow> real \<Rightarrow> bool" where
  "gt_num v k = (case v of None \<Rightarrow> False | Some r \<Rightarrow> r > k)"

definition ValidatorPanel_isLightColor :: "string \<Rightarrow> bool" where
  "ValidatorPanel_isLightColor hex =
     (let c = remove_first CHR ''#'' hex;
          r = parseInt16 (substring c 0 2);
          g = parseInt16 (substring c 2 4);
          b = parseInt16 (substring c 4 6)
      in gt_num (brightness r g b) 128)"

definition DesignAssistant_isLightColor :: "string \<Rightarrow> bool" where
  "DesignAssistant_isLightColor hex =
     (let c = remove_first CHR ''#'' hex;
          r = parseInt16 (substr c 0 2);
          g = parseInt16 (substr c 2 2);
          b = parseInt16 (substr c 4 2)
      in gt_num (brightness r g b) 128)"

definition map_elements :: "(LayoutElement \<Rightarrow> LayoutElement) \<Rightarrow> Layout \<Rightarrow> Layout" where
  "map_elements f l = l\<lparr>elements := map f (elements l)\<rparr>"

definition is_text :: "LayoutElement \<Rightarrow> bool" where
  "is_text e = (el_type e = ''headline'' \<or> el_type e = ''subhead'')"

text \<open>
  \<open>bgElement?.color || '#FFFFFF'\<close> for the first element of type background.
\<close>

definition bgColor :: "Layout \<Rightarrow> string" where
  "bgColor l =
     (case find (\<lambda>e. el_type e = ''background'') (elements l) of
        None \<Rightarrow> ''#FFFFFF''
      | Some e \<Rightarrow> str_or (el_color e) ''#FFFFFF'')"

text \<open>
  \<open>issue.element_id && e.type === issue.element_id.split('-')[0]\<close>: an absent or
  empty id matches nothing.
\<close>

definition targets :: "ValidationIssue \<Rightarrow> LayoutElement \<Rightarrow> bool" where
  "targets i e =
     (case element_id i of
        None \<Rightarrow> False
      | Some s \<Rightarrow> s \<noteq> [] \<and> el_type e = takeWhile (\<lambda>c. c \<noteq> CHR ''-'') s)"

text \<open>
  \<open>applyAutoFix\<close> of ValidatorPanel. The result is the layout handed to
  \<open>updateLayout\<close>; \<open>None\<close> is the return without an update (no selected layout, or no
  case for the code).
\<close>

definition ValidatorPanel_applyAutoFix :: "Layout option \<Rightarrow> ValidationIssue \<Rightarrow> Layout option" where
  "ValidatorPanel_applyAutoFix selectedLayout i =
     (case selectedLayout of
        None \<Rightarrow> None
      | Some l \<Rightarrow>
          if code i = ''TESCO_TAG_INVALID'' then
            Some (map_elements
              (\<lambda>e. if el_type e = ''tesco_tag'' then e\<lparr>el_text := Some ''Available at Tesco''\<rparr>
                    else e) l)
          else if code i = ''FONT_SIZE_TOO_SMALL'' then
            Some (map_elements
              (\<lambda>e. if is_text e \<and> num_or0 (el_font_size e) < 20
                    then e\<lparr>el_font_size := Some 20\<rparr> else e) l)
          else if code i = ''SAFE_ZONE_TOP_VIOLATION'' \<or> code i = ''SAFE_ZONE_BOTTOM_VIOLATION'' then
            Some (map_elements
              (\<lambda>e. if targets i e then
                      (if code i = ''SAFE_ZONE_TOP_VIOLATION'' then e\<lparr>el_y := Some 12\<rparr>
                       else e\<lparr>el_y := Some 70\<rparr>)
                    else e) l)
          else if code i = ''DRINKAWARE_MISSING'' then
            Some (l\<lparr>elements := elements l @
              [(mk_element ''drinkaware'')\<lparr>el_x := Some 35, el_y := Some 92,
                 el_width := Some 30, el_height := Some 3, el_color := Some ''#000000''\<rparr>]\<rparr>)
          else if code i = ''DRINKAWARE_COLOR_INVALID'' then
            Some (map_elements
              (\<lambda>e. if el_type e = ''drinkaware'' then e\<lparr>el_color := Some ''#000000''\<rparr>
                    else e) l)
          else if code i = ''WCAG_CONTRAST_FAIL'' then
            (let isLightBg = ValidatorPanel_isLightColor (bgColor l) in
             Some (map_elements
               (\<lambda>e. if is_text e
                     then e\<lparr>el_color := Some (if isLightBg then ''#000000'' else ''#FFFFFF'')\<rparr>
                     else e) l))
          else None)"

text \<open>\<open>applyAutoFix\<close> of DesignAssistant, with its additional case and its own values.\<close>

definition DesignAssistant_applyAutoFix :: "Layout option \<Rightarrow> ValidationIssue \<Rightarrow> Layout option" where
  "DesignAssistant_applyAutoFix selectedLayout i =
     (case selectedLayout of
        None \<Rightarrow> None
      | Some l \<Rightarrow>
          if code i = ''TESCO_TAG_MISSING'' then
            Some (l\<lparr>elements := elements l @
              [(mk_element ''tesco_tag'')\<lparr>el_text := Some ''Available at Tesco'',
                 el_x := Some 65, el_y := Some 88, el_width := Some 30, el_height := Some 8\<rparr>]\<rparr>)
          else if code i = ''TESCO_TAG_INVALID'' then
            Some (map_elements
              (\<lambda>e. if el_type e = ''tesco_tag'' then e\<lparr>el_text := Some ''Available at Tesco''\<rparr>
                    else e) l)
          else if code i = ''FONT_SIZE_TOO_SMALL'' then
            Some (map_elements
              (\<lambda>e. if is_text e \<and> num_or0 (el_font_size e) < 20
                    then e\<lparr>el_font_size := Some (if el_type e = ''headline'' then 48 else 24)\<rparr>
                    else e) l)
          else if code i = ''SAFE_ZONE_TOP_VIOLATION'' then
            Some (map_elements
              (\<lambda>e. if el_type e \<noteq> ''background'' \<and> num_or0 (el_y e) < 12
                    then e\<lparr>el_y := Some 15\<rparr> else e) l)
          else if code i = ''SAFE_ZONE_BOTTOM_VIOLATION'' then
            Some (map_elements
              (\<lambda>e. if el_type e \<noteq> ''background'' \<and> el_type e \<noteq> ''tesco_tag''
                       \<and> num_or0 (el_y e) + num_or0 (el_height e) > 87
                    then e\<lparr>el_y := Some 70\<rparr> else e) l)
          else if code i = ''DRINKAWARE_MISSING'' then
            Some (l\<lparr>elements := elements l @
              [(mk_element ''drinkaware'')\<lparr>el_x := Some 35, el_y := Some 94,
                 el_width := Some 30, el_height := Some 3, el_color := Some ''#000000''\<rparr>]\<rparr>)
          else if code i = ''DRINKAWARE_COLOR_INVALID'' then
            Some (map_elements
              (\<lambda>e. if el_type e = ''drinkaware'' then e\<lparr>el_color := Some ''#000000''\<rparr>
                    else e) l)
          else if code i = ''WCAG_CONTRAST_FAIL'' then
            (let isLightBg = DesignAssistant_isLightColor (bgColor l) in
             Some (map_elements
               (\<lambda>e. if is_text e
                     then e\<lparr>el_color := Some (if isLightBg then ''#1F2937'' else ''#FFFFFF'')\<rparr>
                     else e) l))
          else None)"

section \<open>Double arithmetic\<close>

text \<open>
  The snapping code adds, subtracts, multiplies and divides coordinates, and each of
  these operations of the source yields the double nearest to the exact result. The
  definitions of the snapping code take that rounding as their first argument \<open>rd\<close>
  and apply it after every arithmetic operation of the source, so the comparisons
  are made on the rounded values, as in the source. What is proved of them for every
  \<open>rd\<close> holds for the rounding of the source.

  \<open>round_double\<close> is that rounding: IEEE 754 binary64, to the nearest double, ties
  to the even mantissa, with gradual underflow (the exponent of the last mantissa
  bit is never below \<open>-1074\<close>). A result beyond the largest double is \<open>Infinity\<close>
  in the source; that and \<open>NaN\<close> are outside the model.
\<close>

definition fadd :: "(real \<Rightarrow> real) \<Rightarrow> real \<Rightarrow> real \<Rightarrow> real" where
  "fadd rd a b = rd (a + b)"

definition fsub :: "(real \<Rightarrow> real) \<Rightarrow> real \<Rightarrow> real \<Rightarrow> real" where
  "fsub rd a b = rd (a - b)"

definition fmul :: "(real \<Rightarrow> real) \<Rightarrow> real \<Rightarrow> real \<Rightarrow> real" where
  "fmul rd a b = rd (a * b)"

definition fdiv :: "(real \<Rightarrow> real) \<Rightarrow> real \<Rightarrow> real \<Rightarrow> real" where
  "fdiv rd a b = rd (a / b)"

definition round_half_even :: "real \<Rightarrow> int" where
  "round_half_even q =
     (let f = \<lfloor>q\<rfloor>; d = q - of_int f in
      if d < 1 / 2 then f else if 1 / 2 < d then f + 1
      else if even f then f else f + 1)"

definition ulp_exponent :: "real \<Rightarrow> int" where
  "ulp_exponent x = max \<lfloor>log 2 \<bar>x\<bar>\<rfloor> (- 1022) - 52"

definition round_double :: "real \<Rightarrow> real" where
  "round_double x =
     (if x = 0 then 0
      else of_int (round_half_even (x / 2 powr of_int (ulp_exponent x)))
             * 2 powr of_int (ulp_exponent x))"

section \<open>Snapping (frontend/src/utils/smartCanvas.ts)\<close>

record SnapConfig =
  enabled :: bool
  threshold :: real
  gridSize :: real
  showGuides :: bool

definition SNAP_CONFIG :: SnapConfig where
  "SNAP_CONFIG = \<lparr>enabled = True, threshold = 10, gridSize = 20, showGuides = True\<rparr>"

record SafeZone =
  sz_top :: real
  sz_bottom :: real
  sz_left :: real
  sz_right :: real

text \<open>Safe zones configuration by format.\<close>

definition SAFE_ZONES :: "string \<rightharpoonup> SafeZone" where
  "SAFE_ZONES =
     [''1080x1920'' \<mapsto> \<lparr>sz_top = 200, sz_bottom = 250, sz_left = 0, sz_right = 0\<rparr>,
      ''1080x1080'' \<mapsto> \<lparr>sz_top = 0, sz_bottom = 0, sz_left = 0, sz_right = 0\<rparr>,
      ''1200x628'' \<mapsto> \<lparr>sz_top = 0, sz_bottom = 0, sz_left = 0, sz_right = 0\<rparr>]"

datatype SnapType = edge | center | guide | element | safe_zone

record SnapPoint =
  sp_x :: "real option"
  sp_y :: "real option"
  sp_type :: SnapType

definition x_point :: "real \<Rightarrow> SnapType \<Rightarrow> SnapPoint" where
  "x_point v t = \<lparr>sp_x = Some v, sp_y = None, sp_type = t\<rparr>"

definition y_point :: "real \<Rightarrow> SnapType \<Rightarrow> SnapPoint" where
  "y_point v t = \<lparr>sp_x = None, sp_y = Some v, sp_type = t\<rparr>"

text \<open>
  The body of the \<open>forEach\<close> of \<open>getSnapPoints\<close>: the points one element adds.
\<close>

definition element_points ::
  "(real \<Rightarrow> real) \<Rightarrow> real \<Rightarrow> real \<Rightarrow> int option \<Rightarrow> nat \<times> LayoutElement
   \<Rightarrow> SnapPoint list" where
  "element_points rd canvasWidth canvasHeight excludeIndex ie =
     (let (index, elem) = ie in
      if Some (int index) = excludeIndex \<or> el_type elem = ''background'' then []
      else
        (case (el_x elem, el_y elem) of
           (Some ex, Some ey) \<Rightarrow>
             (let x = fmul rd (fdiv rd ex 100) canvasWidth;
                  y = fmul rd (fdiv rd ey 100) canvasHeight;
                  w = fmul rd (fdiv rd (num_or0 (el_width elem)) 100) canvasWidth;
                  h = fmul rd (fdiv rd (num_or0 (el_height elem)) 100) canvasHeight
              in [x_point x element, x_point (fadd rd x (fdiv rd w 2)) element,
                  x_point (fadd rd x w) element,
                  y_point y element, y_point (fadd rd y (fdiv rd h 2)) element,
                  y_point (fadd rd y h) element])
         | _ \<Rightarrow> []))"

text \<open>The literal \<open>0.05\<close> of the margin is the double nearest to it, \<open>rd 0.05\<close>.\<close>

definition getSnapPoints ::
  "(real \<Rightarrow> real) \<Rightarrow> LayoutElement list \<Rightarrow> real \<Rightarrow> real \<Rightarrow> int option
   \<Rightarrow> SnapPoint list" where
  "getSnapPoints rd elems canvasWidth canvasHeight excludeIndex =
     [x_point (fdiv rd canvasWidth 2) center, y_point (fdiv rd canvasHeight 2) center]
     @ (let margin = fmul rd canvasWidth (rd 0.05) in
        [x_point margin guide, x_point (fsub rd canvasWidth margin) guide,
         y_point margin guide, y_point (fsub rd canvasHeight margin) guide])
     @ (case SAFE_ZONES ''1080x1920'' of
          Some safeZone \<Rightarrow>
            [y_point (sz_top safeZone) safe_zone,
             y_point (fsub rd canvasHeight (sz_bottom safeZone)) safe_zone]
        | None \<Rightarrow> [])
     @ concat (map (element_points rd canvasWidth canvasHeight excludeIndex)
                 (enumerate 0 elems))"

text \<open>
  The two loops of \<open>findSnapPosition\<close>, one per axis: each walks the points in list
  order and breaks at the first hit. The pair is the final coordinate and the
  snapped line (\<open>None\<close> when the loop ends without a hit). The loop over the y axis
  is the same code on \<open>point.y\<close>, so one function serves both with the axis'
  projection \<open>proj\<close>. The centre \<open>cur + ext / 2\<close> and the trailing edge
  \<open>cur + ext\<close> are the rounded values the source computes before the loops.
\<close>

fun scan_axis ::
  "(real \<Rightarrow> real) \<Rightarrow> (SnapPoint \<Rightarrow> real option) \<Rightarrow> real \<Rightarrow> real \<Rightarrow> real
   \<Rightarrow> SnapPoint list \<Rightarrow> real \<times> real option" where
  "scan_axis rd proj cur ext t [] = (cur, None)"
| "scan_axis rd proj cur ext t (p # ps) =
     (case proj p of
        None \<Rightarrow> scan_axis rd proj cur ext t ps
      | Some v \<Rightarrow>
          if \<bar>fsub rd cur v\<bar> < t then (v, Some v)
          else if \<bar>fsub rd (fadd rd cur (fdiv rd ext 2)) v\<bar> < t
            then (fsub rd v (fdiv rd ext 2), Some v)
          else if \<bar>fsub rd (fadd rd cur ext) v\<bar> < t then (fsub rd v ext, Some v)
          else scan_axis rd proj cur ext t ps)"

record SnapResult =
  res_x :: real
  res_y :: real
  snappedX :: "real option"
  snappedY :: "real option"

text \<open>The last argument is the optional threshold, defaulting to \<open>SNAP_CONFIG.threshold\<close>.\<close>

definition findSnapPosition ::
  "(real \<Rightarrow> real) \<Rightarrow> real \<Rightarrow> real \<Rightarrow> real \<Rightarrow> real \<Rightarrow> SnapPoint list \<Rightarrow> real option
   \<Rightarrow> SnapResult" where
  "findSnapPosition rd currentX currentY elementWidth elementHeight snapPoints thr =
     (let t = (case thr of None \<Rightarrow> threshold SNAP_CONFIG | Some v \<Rightarrow> v);
          (finalX, sx) = scan_axis rd sp_x currentX elementWidth t snapPoints;
          (finalY, sy) = scan_axis rd sp_y currentY elementHeight t snapPoints
      in \<lparr>res_x = finalX, res_y = finalY, snappedX = sx, snappedY = sy\<rparr>)"






section \<open>Contrast (frontend/src/utils/smartCanvas.ts)\<close>

text \<open>
  \<open>match(/.{2}/g)\<close>: the consecutive pairs of characters, where \<open>.\<close> does not match
  a line terminator; no pair at all is \<open>null\<close>, replaced by \<open>[0, 0, 0]\<close>.
\<close>

definition is_line_terminator :: "char \<Rightarrow> bool" where
  "is_line_terminator c = ((of_char c :: nat) = 10 \<or> (of_char c :: nat) = 13)"

fun match_pairs :: "string \<Rightarrow> string list" where
  "match_pairs (a # b # cs) =
     (if is_line_terminator a then match_pairs (b # cs)
      else if is_line_terminator b then match_pairs cs
      else [a, b] # match_pairs cs)"
| "match_pairs cs = []"

definition linearize :: "real \<Rightarrow> real" where
  "linearize c = (if c \<le> 0.03928 then c / 12.92 else ((c + 0.055) / 1.055) powr 2.4)"

text \<open>
  \<open>getLuminance\<close>, the local function of \<open>calculateContrastRatio\<close>. The three
  channels are the first three entries of the array; a missing entry is
  \<open>undefined\<close> and an unparsable pair is \<open>NaN\<close>, either of which makes the sum \<open>NaN\<close>.
\<close>

definition getLuminance :: "string \<Rightarrow> real option" where
  "getLuminance hex =
     (let pairs = match_pairs (remove_first CHR ''#'' hex);
          rgb = (if pairs = [] then [Some 0, Some 0, Some 0]
                 else map (\<lambda>x. map_option (\<lambda>n. real_of_int n / 255) (parseInt16 x)) pairs);
          lin = map (map_option linearize) rgb
      in case lin of
           Some r # Some g # Some b # _ \<Rightarrow> Some (0.2126 * r + 0.7152 * g + 0.0722 * b)
         | _ \<Rightarrow> None)"

definition calculateContrastRatio :: "string \<Rightarrow> string \<Rightarrow> real option" where
  "calculateContrastRatio color1 color2 =
     (case (getLuminance color1, getLuminance color2) of
        (Some l1, Some l2) \<Rightarrow>
          (let lighter = max l1 l2; darker = min l1 l2
           in Some ((lighter + 0.05) / (darker + 0.05)))
      | _ \<Rightarrow> None)"

definition meetsWCAGAA :: "string \<Rightarrow> string \<Rightarrow> real \<Rightarrow> bool" where
  "meetsWCAGAA textColor bgCol fontSize =
     (let ratio = calculateContrastRatio textColor bgCol;
          required = (if fontSize \<ge> 24 then 3 else 4.5)
      in case ratio of None \<Rightarrow> False | Some r \<Rightarrow> r \<ge> required)"

text \<open>A colour as the data model has it: \<open>#\<close> and six hexadecimal digits.\<close>

definition is_hex6 :: "string \<Rightarrow> bool" where
  "is_hex6 s =
     (case s of
        h # ds \<Rightarrow> h = CHR ''#'' \<and> length ds = 6 \<and> list_all (\<lambda>c. hex_digit c \<noteq> None) ds
      | [] \<Rightarrow> False)"

section \<open>First-fit snapping, as the specification words it\<close>

text \<open>
  A point at coordinate \<open>v\<close> is within the threshold of an element that starts at
  \<open>cur\<close> and extends over \<open>ext\<close> when its leading edge, its centre or its trailing
  edge, as computed, is closer than \<open>t\<close> to \<open>v\<close>; \<open>aligned\<close> is the start
  coordinate, as computed, that puts the first such feature, in that order, on \<open>v\<close>.
\<close>

definition computed_centre :: "(real \<Rightarrow> real) \<Rightarrow> real \<Rightarrow> real \<Rightarrow> real" where
  "computed_centre rd cur ext = fadd rd cur (fdiv rd ext 2)"

definition within_threshold :: "(real \<Rightarrow> real) \<Rightarrow> real \<Rightarrow> real \<Rightarrow> real \<Rightarrow> real \<Rightarrow> bool" where
  "within_threshold rd cur ext t v =
     (\<bar>fsub rd cur v\<bar> < t \<or> \<bar>fsub rd (computed_centre rd cur ext) v\<bar> < t
      \<or> \<bar>fsub rd (fadd rd cur ext) v\<bar> < t)"

definition aligned :: "(real \<Rightarrow> real) \<Rightarrow> real \<Rightarrow> real \<Rightarrow> real \<Rightarrow> real \<Rightarrow> real" where
  "aligned rd cur ext t v =
     (if \<bar>fsub rd cur v\<bar> < t then v
      else if \<bar>fsub rd (computed_centre rd cur ext) v\<bar> < t then fsub rd v (fdiv rd ext 2)
      else fsub rd v ext)"

definition no_hit ::
  "(real \<Rightarrow> real) \<Rightarrow> (SnapPoint \<Rightarrow> real option) \<Rightarrow> real \<Rightarrow> real \<Rightarrow> real \<Rightarrow> SnapPoint list
   \<Rightarrow> bool" where
  "no_hit rd proj cur ext t ps =
     list_all (\<lambda>p. case proj p of None \<Rightarrow> True
                   | Some v \<Rightarrow> \<not> within_threshold rd cur ext t v) ps"

section \<open>Sample issue and layout\<close>

text \<open>An issue with a code and an element reference, and a small layout to run fixes on.\<close>

definition mk_issue :: "string \<Rightarrow> string option \<Rightarrow> ValidationIssue" where
  "mk_issue c eid =
     \<lparr>severity = hard, code = c, message = [], fix_suggestion = None, element_id = eid,
      bounding_box = None\<rparr>"

definition sample_layout :: Layout where
  "sample_layout =
     \<lparr>layout_id = ''sample'', score = 1,
      elements =
        [(mk_element ''background'')\<lparr>el_color := Some ''#FFFFFF''\<rparr>,
         (mk_element ''headline'')\<lparr>el_text := Some ''Sale'', el_x := Some 10, el_y := Some 5,
            el_width := Some 80, el_height := Some 10, el_font_size := Some 10,
            el_color := Some ''#CCCCCC''\<rparr>]\<rparr>"

text \<open>
  A store whose last validation result holds a hard issue and no request is in flight,
  and a layout with one element half as wide as the canvas.
\<close>

definition hard_issue_store :: StoreState where
  "hard_issue_store = initial_store\<lparr>validationResult :=
     Some \<lparr>ok = False, issues = [mk_issue ''WCAG_CONTRAST_FAIL'' None],
       checked_rules = [''WCAG_CONTRAST'']\<rparr>\<rparr>"


section \<open>Brightness of a colour, as the specification words it\<close>

text \<open>
  The channel \<open>k\<close> (0 red, 1 green, 2 blue) of a colour \<open>#RRGGBB\<close> on the 0-255
  scale, and the brightness \<open>(299 r + 587 g + 114 b) / 1000\<close>.
\<close>

definition hex_val :: "char \<Rightarrow> nat" where
  "hex_val c = (case hex_digit c of None \<Rightarrow> 0 | Some d \<Rightarrow> d)"

definition spec_channel :: "string \<Rightarrow> nat \<Rightarrow> nat" where
  "spec_channel s k = 16 * hex_val (s ! (1 + 2 * k)) + hex_val (s ! (2 + 2 * k))"

definition spec_brightness :: "string \<Rightarrow> real" where
  "spec_brightness s =
     (299 * real (spec_channel s 0) + 587 * real (spec_channel s 1)
      + 114 * real (spec_channel s 2)) / 1000"

section \<open>Store history\<close>

lemma slice0_length:
  "0 \<le> i \<Longrightarrow> i < int (length xs) \<Longrightarrow> length (slice0 xs (i + 1)) = nat (i + 1)"
  by (auto simp: slice0_def Let_def min_def)

lemma setLayout_inv:
  assumes "history_inv s"
  shows "history_inv (setLayout (Some l) s)"
proof -
  let ?pushed = "slice0 (history s) (historyIndex s + 1) @ [l]"
  from assms have len: "length ?pushed = nat (historyIndex s + 2)"
    by (simp add: history_inv_def slice0_length nat_add_distrib)
  from assms have bound: "int (length ?pushed) \<le> MAX_HISTORY + 1"
    unfolding len by (simp add: history_inv_def)
  have ne: "?pushed \<noteq> []" by simp
  show ?thesis
  proof (cases "int (length ?pushed) > MAX_HISTORY")
    case True
    with bound have "int (length ?pushed) = MAX_HISTORY + 1" by simp
    then have "int (length (tl ?pushed)) = MAX_HISTORY"
      by (simp del: tl_append2 add: MAX_HISTORY_def)
    with True show ?thesis
      by (simp add: setLayout_def Let_def history_inv_def MAX_HISTORY_def del: tl_append2)
  next
    case False
    with ne show ?thesis
      by (simp add: setLayout_def Let_def history_inv_def)
  qed
qed

lemma addElement_inv: "history_inv s \<Longrightarrow> history_inv (addElement e s)"
  by (simp add: addElement_def setLayout_inv split: option.splits)

lemma updateElement_inv: "history_inv s \<Longrightarrow> history_inv (updateElement i u s)"
  by (simp add: updateElement_def setLayout_inv split: option.splits)

lemma removeElement_inv: "history_inv s \<Longrightarrow> history_inv (removeElement i s)"
  by (simp add: removeElement_def setLayout_inv split: option.splits)

lemma undo_inv: "history_inv s \<Longrightarrow> \<exists>s'. undo s = Some s' \<and> history_inv s'"
  by (auto simp: undo_def history_inv_def history_at_def Let_def)

lemma redo_inv: "history_inv s \<Longrightarrow> \<exists>s'. redo s = Some s' \<and> history_inv s'"
  by (auto simp: redo_def history_inv_def history_at_def Let_def)

lemma initial_store_inv: "history_inv initial_store"
  by (simp add: history_inv_def initial_store_def MAX_HISTORY_def)

text \<open>
  C10. From a state with \<open>0 \<le> historyIndex \<le> history.length - 1\<close> and
  \<open>history.length \<le> 50\<close>, each of setLayout (non-null), addElement, updateElement,
  removeElement, undo and redo completes and leaves a state with the same bounds; the
  initial store has them; and canUndo is exactly \<open>historyIndex > 0\<close>, canRedo is
  exactly \<open>historyIndex < history.length - 1\<close>.
\<close>

theorem store_history_invariant:
  assumes "history_inv s"
  shows "(\<exists>s'. store_step a s = Some s' \<and> history_inv s')
         \<and> history_inv initial_store
         \<and> (canUndo s \<longleftrightarrow> 0 < historyIndex s)
         \<and> (canRedo s \<longleftrightarrow> historyIndex s < int (length (history s)) - 1)
         \<and> 0 \<le> historyIndex s \<and> historyIndex s \<le> int (length (history s)) - 1
         \<and> length (history s) \<le> 50"
proof -
  have "\<exists>s'. store_step a s = Some s' \<and> history_inv s'"
    using assms
    by (cases a)
       (simp_all add: setLayout_inv addElement_inv updateElement_inv removeElement_inv
          undo_inv redo_inv)
  moreover from assms
  have "0 \<le> historyIndex s \<and> historyIndex s \<le> int (length (history s)) - 1
        \<and> length (history s) \<le> 50"
    by (simp add: history_inv_def MAX_HISTORY_def)
  ultimately show ?thesis
    by (simp add: initial_store_inv canUndo_def canRedo_def)
qed

theorem store_history_invariant_witness:
  "history_inv initial_store
   \<and> (\<exists>s'. store_step (AddElement (mk_element ''logo'')) initial_store = Some s'
        \<and> history_inv s')
   \<and> \<not> canUndo initial_store \<and> \<not> canRedo initial_store"
  using store_history_invariant [OF initial_store_inv, of "AddElement (mk_element ''logo'')"]
  by (simp add: initial_store_def)

section \<open>Rounding to doubles\<close>

lemma round_half_even_int: "round_half_even (of_int n) = n"
  by (simp add: round_half_even_def)

text \<open>
  A number \<open>m / 2 ^ k\<close> with an integer \<open>m\<close> of fewer than 54 bits is a double, and
  rounding leaves it as it is. Integers and halves of integers of that size follow.
\<close>

lemma round_double_dyadic:
  assumes x: "x = of_int m / 2 ^ k" and m: "\<bar>m\<bar> < 2 ^ 53" and k: "k \<le> 1022"
  shows "round_double x = x"
proof (cases "m = 0")
  case True
  with x show ?thesis by (simp add: round_double_def)
next
  case False
  then have m1: "1 \<le> \<bar>real_of_int m\<bar>" by simp
  have ax: "\<bar>x\<bar> = \<bar>real_of_int m\<bar> / 2 ^ k" by (simp add: x)
  have xpos: "0 < \<bar>x\<bar>" using False by (simp add: x)
  have lo: "2 powr of_int (- int k) \<le> \<bar>x\<bar>"
    using m1 by (simp add: ax powr_minus powr_realpow field_simps)
  have "\<bar>real_of_int m\<bar> < 2 ^ 53"
    using m of_int_less_iff [of "\<bar>m\<bar>" "2 ^ 53", where ?'a = real] by simp
  then have "\<bar>x\<bar> < 2 ^ 53 / 2 ^ k"
    by (simp add: ax divide_strict_right_mono)
  also have "\<dots> = 2 powr of_int (53 - int k)"
    by (simp add: powr_diff powr_realpow)
  finally have hi: "\<bar>x\<bar> < 2 powr of_int (53 - int k)" .
  define e where "e = \<lfloor>log 2 \<bar>x\<bar>\<rfloor>"
  have e_lo: "- int k \<le> e"
    unfolding e_def using lo xpos by (simp add: le_floor_iff le_log_iff)
  have "log 2 \<bar>x\<bar> < of_int (53 - int k)"
    using hi xpos by (simp add: log_less_iff)
  then have e_hi: "e < 53 - int k"
    unfolding e_def by (simp add: floor_less_iff)
  from e_lo k have u: "ulp_exponent x = e - 52"
    by (simp add: ulp_exponent_def e_def [symmetric])
  define j where "j = nat (52 - int k - e)"
  from e_hi have neg: "e - 52 = - int (k + j)" by (simp add: j_def)
  have p: "(2::real) powr of_int (ulp_exponent x) = 1 / 2 ^ (k + j)"
    unfolding u neg by (simp add: powr_minus_divide powr_realpow flip: of_nat_add)
  have q: "x / (1 / 2 ^ (k + j)) = of_int (m * 2 ^ j)"
    by (simp add: x power_add)
  have "x \<noteq> 0" using xpos by simp
  then have "round_double x =
      of_int (round_half_even (x / 2 powr of_int (ulp_exponent x)))
        * 2 powr of_int (ulp_exponent x)"
    by (simp add: round_double_def)
  also have "\<dots> = of_int (m * 2 ^ j) * (1 / 2 ^ (k + j))"
    by (simp only: p q round_half_even_int)
  also have "\<dots> = x"
    by (simp add: x power_add)
  finally show ?thesis .
qed

lemma round_double_int:
  assumes "x \<in> \<int>" and "\<bar>x\<bar> < 9007199254740992"
  shows "round_double x = x"
proof -
  from assms(1) obtain m where m: "x = of_int m" by (auto elim: Ints_cases)
  with assms(2) have "\<bar>m\<bar> < 2 ^ 53" by simp
  from round_double_dyadic [of x m 0, OF _ this] m show ?thesis by simp
qed


text \<open>
  Inside a binade \<open>2 ^ n \<le> |x| < 2 ^ (n + 1)\<close> the doubles are the multiples of
  \<open>2 ^ (n - 52)\<close>, and rounding picks the nearest one.
\<close>

lemma round_double_binade:
  assumes lo: "2 ^ n \<le> \<bar>x\<bar>" and hi: "\<bar>x\<bar> < 2 ^ (n + 1)" and n: "n \<le> 52"
  shows "round_double x = of_int (round_half_even (x * 2 ^ (52 - n))) / 2 ^ (52 - n)"
proof -
  have "(0::real) < 2 ^ n" by simp
  with lo have xpos: "0 < \<bar>x\<bar>" by linarith
  have "\<lfloor>log 2 \<bar>x\<bar>\<rfloor> = int n"
    using lo hi xpos by (simp add: floor_log_eq_powr_iff powr_realpow powr_add)
  then have u: "ulp_exponent x = - int (52 - n)"
    using n by (simp add: ulp_exponent_def)
  have p: "(2::real) powr of_int (ulp_exponent x) = 1 / 2 ^ (52 - n)"
    unfolding u by (simp add: powr_minus_divide powr_realpow)
  from xpos have "x \<noteq> 0" by simp
  then show ?thesis
    by (simp add: round_double_def p)
qed

section \<open>Rounding at the threshold\<close>

text \<open>
  The rounding decides a snap at the threshold. An element at \<open>x = 84 + 2 ^ -46\<close>,
  100 wide, has its exact centre at a distance below 10 from a line at 144; the sum
  \<open>x + 50\<close> is half way between two doubles and rounds to 134, at distance 10, so
  the loop does not snap.
\<close>

lemma tie_134: "round_double (134 + 1 / 2 ^ 46) = 134"
  using round_double_binade [of 7 "134 + 1 / 2 ^ 46"]
  by (simp add: round_half_even_def)

lemma tie_184: "round_double (184 + 1 / 2 ^ 46) = 184"
  using round_double_binade [of 7 "184 + 1 / 2 ^ 46"]
  by (simp add: round_half_even_def)

lemma exact_60: "round_double (84 + 1 / 2 ^ 46 - 144) = 84 + 1 / 2 ^ 46 - 144"
  by (rule round_double_dyadic [of _ "- 4222124650659839" 46]) simp_all

lemma rounded_values:
  "round_double (9429411719806977 / 70368744177664) = 134"
  "round_double (12947848928690177 / 70368744177664) = 184"
  "round_double (- (4222124650659839 / 70368744177664)) = - (4222124650659839 / 70368744177664)"
  using tie_134 tie_184 exact_60 by simp_all

lemma rounding_decides_snap:
  "scan_axis round_double sp_x (84 + 1 / 2 ^ 46) 100 10 [x_point 144 guide]
     = (84 + 1 / 2 ^ 46, None)
   \<and> \<bar>((84 + 1 / 2 ^ 46) + 100 / 2) - (144::real)\<bar> < 10"
  by (simp add: x_point_def fsub_def fadd_def fdiv_def round_double_int rounded_values)

section \<open>Export gating\<close>

text \<open>
  The two gated sites: the Export button of the Toolbar is disabled exactly when a
  request is in flight or the last validation result holds an issue of severity hard;
  DesignAssistant reports ready to export exactly when there is no such issue; and a
  result with only warn issues leaves the button to \<open>isLoading\<close> alone.
\<close>

lemma export_button_gating:
  "(export_disabled s \<longleftrightarrow>
      isLoading s \<or> (\<exists>r. validationResult s = Some r \<and> (\<exists>i\<in>set (issues r). severity i = hard)))
   \<and> (isExportReady (validationResult s) \<longleftrightarrow>
      \<not> (\<exists>r. validationResult s = Some r \<and> (\<exists>i\<in>set (issues r). severity i = hard)))
   \<and> ((\<forall>r. validationResult s = Some r \<longrightarrow> (\<forall>i\<in>set (issues r). severity i = warn))
        \<longrightarrow> (export_disabled s \<longleftrightarrow> isLoading s) \<and> isExportReady (validationResult s))"
proof -
  have a: "truthy (hasErrors (validationResult s)) \<longleftrightarrow>
        (\<exists>r. validationResult s = Some r \<and> (\<exists>i\<in>set (issues r). severity i = hard))"
    by (cases "validationResult s") (simp_all add: truthy_def hasErrors_def list_ex_iff)
  have b: "isExportReady (validationResult s) \<longleftrightarrow>
        \<not> (\<exists>r. validationResult s = Some r \<and> (\<exists>i\<in>set (issues r). severity i = hard))"
    by (cases "validationResult s")
       (auto simp: isExportReady_def hardIssues_def filter_empty_conv)
  have c: "(\<forall>r. validationResult s = Some r \<longrightarrow> (\<forall>i\<in>set (issues r). severity i = warn))
        \<Longrightarrow> \<not> (\<exists>r. validationResult s = Some r \<and> (\<exists>i\<in>set (issues r). severity i = hard))"
    by auto
  show ?thesis
    unfolding export_disabled_def a b using c by blast
qed

text \<open>
  C1. What the code does with a hard issue present and no request in flight: the
  Export button of the Toolbar is disabled and a click on it leaves the export dialog
  closed, DesignAssistant reports that the design is not ready to export, and
  Ctrl+E opens the export dialog all the same, since the keyboard handler of App
  looks at \<open>isLoading\<close> only.
\<close>

theorem export_shortcut_ungated:
  "severity (mk_issue ''WCAG_CONTRAST_FAIL'' None) = hard
   \<and> validationResult hard_issue_store
       = Some \<lparr>ok = False, issues = [mk_issue ''WCAG_CONTRAST_FAIL'' None],
               checked_rules = [''WCAG_CONTRAST'']\<rparr>
   \<and> \<not> isLoading hard_issue_store
   \<and> export_disabled hard_issue_store
   \<and> \<not> isExportReady (validationResult hard_issue_store)
   \<and> onExport_click hard_issue_store False = False
   \<and> handleKeyDown \<lparr>ctrlKey = True, metaKey = False, key = ''e''\<rparr> hard_issue_store False
       = True"
  by (simp add: hard_issue_store_def initial_store_def mk_issue_def export_disabled_def
      truthy_def hasErrors_def isExportReady_def hardIssues_def onExport_click_def
      handleKeyDown_def toLowerCase_def)

section \<open>Snap points\<close>

lemma element_points_type:
  "p \<in> set (element_points rd cw ch ex ie) \<Longrightarrow> sp_type p = element"
  by (auto simp: element_points_def Let_def x_point_def y_point_def
      split: prod.splits option.splits if_splits)

lemma filter_element_points:
  "filter (\<lambda>p. sp_type p = safe_zone) (concat (map (element_points rd cw ch ex) xs)) = []"
  by (auto simp: filter_empty_conv dest: element_points_type)

text \<open>
  C4. What the code does: the safe-zone lines of \<open>getSnapPoints\<close> are \<open>y = 200\<close> and
  \<open>y = canvasHeight - 250\<close> (as a double) for every canvas, the band of the 1080x1920
  format. On a 1080x1080 canvas they are \<open>y = 200\<close> and \<open>y = 830\<close>, although the
  entry of \<open>SAFE_ZONES\<close> for that format is the empty zone.
\<close>

theorem safe_zone_lines_fixed_format:
  "filter (\<lambda>p. sp_type p = safe_zone) (getSnapPoints rd elems canvasWidth canvasHeight ex)
     = [y_point 200 safe_zone, y_point (fsub rd canvasHeight 250) safe_zone]
   \<and> filter (\<lambda>p. sp_type p = safe_zone) (getSnapPoints round_double [] 1080 1080 None)
     = [y_point 200 safe_zone, y_point 830 safe_zone]
   \<and> SAFE_ZONES ''1080x1080'' = Some \<lparr>sz_top = 0, sz_bottom = 0, sz_left = 0, sz_right = 0\<rparr>"
  by (simp add: getSnapPoints_def SAFE_ZONES_def filter_element_points x_point_def y_point_def
      Let_def fsub_def round_double_int)

section \<open>First-fit snapping\<close>

lemma scan_axis_no_hit:
  "no_hit rd proj cur ext t ps \<Longrightarrow> scan_axis rd proj cur ext t ps = (cur, None)"
  by (induction ps)
     (auto simp: no_hit_def within_threshold_def computed_centre_def split: option.splits)

lemma scan_axis_first_hit:
  assumes "no_hit rd proj cur ext t pre" and "proj p = Some v"
    and "within_threshold rd cur ext t v"
  shows "scan_axis rd proj cur ext t (pre @ p # post) = (aligned rd cur ext t v, Some v)"
  using assms
proof (induction pre)
  case Nil
  then show ?case
    by (auto simp: within_threshold_def aligned_def computed_centre_def)
next
  case (Cons q pre)
  then show ?case
    by (auto simp: no_hit_def within_threshold_def computed_centre_def split: option.splits)
qed

lemma findSnapPosition_axes:
  "findSnapPosition rd cx cy w h ps (Some t) =
     \<lparr>res_x = fst (scan_axis rd sp_x cx w t ps), res_y = fst (scan_axis rd sp_y cy h t ps),
      snappedX = snd (scan_axis rd sp_x cx w t ps),
      snappedY = snd (scan_axis rd sp_y cy h t ps)\<rparr>"
  by (simp add: findSnapPosition_def split: prod.splits)

text \<open>
  C5. Snapping is first-fit and per axis, on the coordinates as the code computes
  them. On the x axis: when no point of the list is within the threshold, \<open>x\<close> comes
  back unchanged and \<open>snappedX\<close> is absent; when the list is \<open>pre @ p # post\<close> with
  no point of \<open>pre\<close> within the threshold and \<open>p\<close> within it, the result is
  aligned with \<open>p\<close> (leading edge, else centre, else trailing edge) whatever
  \<open>post\<close> holds. The same holds on the y axis, neither axis reads the other's
  coordinate, and the threshold is 10 when none is passed.
\<close>

theorem first_fit_snapping:
  "(no_hit rd sp_x cx w t ps \<longrightarrow>
      res_x (findSnapPosition rd cx cy w h ps (Some t)) = cx
      \<and> snappedX (findSnapPosition rd cx cy w h ps (Some t)) = None)
   \<and> (no_hit rd sp_x cx w t pre \<and> sp_x p = Some v \<and> within_threshold rd cx w t v \<longrightarrow>
      res_x (findSnapPosition rd cx cy w h (pre @ p # post) (Some t)) = aligned rd cx w t v
      \<and> snappedX (findSnapPosition rd cx cy w h (pre @ p # post) (Some t)) = Some v)
   \<and> (no_hit rd sp_y cy h t ps \<longrightarrow>
      res_y (findSnapPosition rd cx cy w h ps (Some t)) = cy
      \<and> snappedY (findSnapPosition rd cx cy w h ps (Some t)) = None)
   \<and> (no_hit rd sp_y cy h t pre \<and> sp_y p = Some v \<and> within_threshold rd cy h t v \<longrightarrow>
      res_y (findSnapPosition rd cx cy w h (pre @ p # post) (Some t)) = aligned rd cy h t v
      \<and> snappedY (findSnapPosition rd cx cy w h (pre @ p # post) (Some t)) = Some v)
   \<and> res_x (findSnapPosition rd cx cy w h ps (Some t))
       = res_x (findSnapPosition rd cx cy' w h' ps (Some t))
   \<and> res_y (findSnapPosition rd cx cy w h ps (Some t))
       = res_y (findSnapPosition rd cx' cy w' h ps (Some t))
   \<and> findSnapPosition rd cx cy w h ps None = findSnapPosition rd cx cy w h ps (Some 10)"
  by (simp add: findSnapPosition_axes scan_axis_no_hit scan_axis_first_hit)
     (simp add: findSnapPosition_def SNAP_CONFIG_def case_prod_beta)

theorem first_fit_snapping_witness:
  "no_hit round_double sp_x 98 50 10 [] \<and> sp_x (x_point 100 guide) = Some 100
   \<and> within_threshold round_double 98 50 10 100
   \<and> no_hit round_double sp_y 0 10 10
       ([] @ x_point 100 guide # [x_point 105 guide, y_point 300 guide])
   \<and> res_x (findSnapPosition round_double 98 0 50 10
        ([] @ x_point 100 guide # [x_point 105 guide, y_point 300 guide]) (Some 10)) = 100
   \<and> snappedX (findSnapPosition round_double 98 0 50 10
        ([] @ x_point 100 guide # [x_point 105 guide, y_point 300 guide]) (Some 10)) = Some 100
   \<and> res_y (findSnapPosition round_double 98 0 50 10
        ([] @ x_point 100 guide # [x_point 105 guide, y_point 300 guide]) (Some 10)) = 0
   \<and> snappedY (findSnapPosition round_double 98 0 50 10
        ([] @ x_point 100 guide # [x_point 105 guide, y_point 300 guide]) (Some 10)) = None"
  using first_fit_snapping [of round_double 98 50 10
      "[] @ x_point 100 guide # [x_point 105 guide, y_point 300 guide]" 0 10
      "[]" "x_point 100 guide" 100 "[x_point 105 guide, y_point 300 guide]"]
  by (simp add: no_hit_def within_threshold_def aligned_def computed_centre_def x_point_def
      y_point_def fadd_def fsub_def fdiv_def round_double_int)

section \<open>Snapping to the canvas centre\<close>







section \<open>Auto-fix transforms\<close>

lemma map_elements_idem:
  "(\<And>e. f (f e) = f e) \<Longrightarrow> map_elements f (map_elements f l) = map_elements f l"
  by (simp add: map_elements_def)

lemma find_map_unchanged:
  "(\<And>e. P (f e) = P e) \<Longrightarrow> (\<And>e. P e \<Longrightarrow> f e = e) \<Longrightarrow> find P (map f xs) = find P xs"
  by (induction xs) simp_all

lemma is_text_recolour: "is_text (e\<lparr>el_color := c\<rparr>) = is_text e"
  by (simp add: is_text_def)

lemma bgColor_recolour:
  "bgColor (map_elements (\<lambda>e. if is_text e then e\<lparr>el_color := c\<rparr> else e) l) = bgColor l"
proof -
  have "find (\<lambda>e. el_type e = ''background'')
          (map (\<lambda>e. if is_text e then e\<lparr>el_color := c\<rparr> else e) (elements l))
        = find (\<lambda>e. el_type e = ''background'') (elements l)"
    by (rule find_map_unchanged) (auto simp: is_text_def)
  then show ?thesis
    by (simp add: bgColor_def map_elements_def)
qed

lemma VP_tesco_tag_invalid:
  "code i = ''TESCO_TAG_INVALID'' \<Longrightarrow>
   ValidatorPanel_applyAutoFix (Some l) i =
     Some (map_elements
       (\<lambda>e. if el_type e = ''tesco_tag'' then e\<lparr>el_text := Some ''Available at Tesco''\<rparr> else e) l)"
  by (simp add: ValidatorPanel_applyAutoFix_def)

lemma VP_font_size:
  "code i = ''FONT_SIZE_TOO_SMALL'' \<Longrightarrow>
   ValidatorPanel_applyAutoFix (Some l) i =
     Some (map_elements
       (\<lambda>e. if is_text e \<and> num_or0 (el_font_size e) < 20
             then e\<lparr>el_font_size := Some 20\<rparr> else e) l)"
  by (simp add: ValidatorPanel_applyAutoFix_def)

lemma VP_safe_zone_top:
  "code i = ''SAFE_ZONE_TOP_VIOLATION'' \<Longrightarrow>
   ValidatorPanel_applyAutoFix (Some l) i =
     Some (map_elements (\<lambda>e. if targets i e then e\<lparr>el_y := Some 12\<rparr> else e) l)"
  by (simp add: ValidatorPanel_applyAutoFix_def cong: if_cong)

lemma VP_safe_zone_bottom:
  "code i = ''SAFE_ZONE_BOTTOM_VIOLATION'' \<Longrightarrow>
   ValidatorPanel_applyAutoFix (Some l) i =
     Some (map_elements (\<lambda>e. if targets i e then e\<lparr>el_y := Some 70\<rparr> else e) l)"
  by (simp add: ValidatorPanel_applyAutoFix_def cong: if_cong)

lemma VP_drinkaware_color:
  "code i = ''DRINKAWARE_COLOR_INVALID'' \<Longrightarrow>
   ValidatorPanel_applyAutoFix (Some l) i =
     Some (map_elements
       (\<lambda>e. if el_type e = ''drinkaware'' then e\<lparr>el_color := Some ''#000000''\<rparr> else e) l)"
  by (simp add: ValidatorPanel_applyAutoFix_def)

lemma VP_wcag:
  "code i = ''WCAG_CONTRAST_FAIL'' \<Longrightarrow>
   ValidatorPanel_applyAutoFix (Some l) i =
     Some (map_elements
       (\<lambda>e. if is_text e
             then e\<lparr>el_color := Some (if ValidatorPanel_isLightColor (bgColor l)
                                       then ''#000000'' else ''#FFFFFF'')\<rparr>
             else e) l)"
  by (simp add: ValidatorPanel_applyAutoFix_def)

lemma VP_unhandled:
  "code i \<notin> {''TESCO_TAG_INVALID'', ''FONT_SIZE_TOO_SMALL'', ''SAFE_ZONE_TOP_VIOLATION'',
      ''SAFE_ZONE_BOTTOM_VIOLATION'', ''DRINKAWARE_MISSING'', ''DRINKAWARE_COLOR_INVALID'',
      ''WCAG_CONTRAST_FAIL''} \<Longrightarrow>
   ValidatorPanel_applyAutoFix lo i = None"
  by (simp add: ValidatorPanel_applyAutoFix_def split: option.splits)

lemma VP_None: "ValidatorPanel_applyAutoFix None i = None"
  by (simp add: ValidatorPanel_applyAutoFix_def)

lemma DA_tesco_tag_invalid:
  "code i = ''TESCO_TAG_INVALID'' \<Longrightarrow>
   DesignAssistant_applyAutoFix (Some l) i =
     Some (map_elements
       (\<lambda>e. if el_type e = ''tesco_tag'' then e\<lparr>el_text := Some ''Available at Tesco''\<rparr> else e) l)"
  by (simp add: DesignAssistant_applyAutoFix_def)

lemma DA_font_size:
  "code i = ''FONT_SIZE_TOO_SMALL'' \<Longrightarrow>
   DesignAssistant_applyAutoFix (Some l) i =
     Some (map_elements
       (\<lambda>e. if is_text e \<and> num_or0 (el_font_size e) < 20
             then e\<lparr>el_font_size := Some (if el_type e = ''headline'' then 48 else 24)\<rparr>
             else e) l)"
  by (simp add: DesignAssistant_applyAutoFix_def)

lemma DA_safe_zone_top:
  "code i = ''SAFE_ZONE_TOP_VIOLATION'' \<Longrightarrow>
   DesignAssistant_applyAutoFix (Some l) i =
     Some (map_elements
       (\<lambda>e. if el_type e \<noteq> ''background'' \<and> num_or0 (el_y e) < 12
             then e\<lparr>el_y := Some 15\<rparr> else e) l)"
  by (simp add: DesignAssistant_applyAutoFix_def)

lemma DA_safe_zone_bottom:
  "code i = ''SAFE_ZONE_BOTTOM_VIOLATION'' \<Longrightarrow>
   DesignAssistant_applyAutoFix (Some l) i =
     Some (map_elements
       (\<lambda>e. if el_type e \<noteq> ''background'' \<and> el_type e \<noteq> ''tesco_tag''
                \<and> num_or0 (el_y e) + num_or0 (el_height e) > 87
             then e\<lparr>el_y := Some 70\<rparr> else e) l)"
  by (simp add: DesignAssistant_applyAutoFix_def)

lemma DA_drinkaware_color:
  "code i = ''DRINKAWARE_COLOR_INVALID'' \<Longrightarrow>
   DesignAssistant_applyAutoFix (Some l) i =
     Some (map_elements
       (\<lambda>e. if el_type e = ''drinkaware'' then e\<lparr>el_color := Some ''#000000''\<rparr> else e) l)"
  by (simp add: DesignAssistant_applyAutoFix_def)

lemma DA_wcag:
  "code i = ''WCAG_CONTRAST_FAIL'' \<Longrightarrow>
   DesignAssistant_applyAutoFix (Some l) i =
     Some (map_elements
       (\<lambda>e. if is_text e
             then e\<lparr>el_color := Some (if DesignAssistant_isLightColor (bgColor l)
                                       then ''#1F2937'' else ''#FFFFFF'')\<rparr>
             else e) l)"
  by (simp add: DesignAssistant_applyAutoFix_def)

lemma DA_unhandled:
  "code i \<notin> {''TESCO_TAG_MISSING'', ''TESCO_TAG_INVALID'', ''FONT_SIZE_TOO_SMALL'',
      ''SAFE_ZONE_TOP_VIOLATION'', ''SAFE_ZONE_BOTTOM_VIOLATION'', ''DRINKAWARE_MISSING'',
      ''DRINKAWARE_COLOR_INVALID'', ''WCAG_CONTRAST_FAIL''} \<Longrightarrow>
   DesignAssistant_applyAutoFix lo i = None"
  by (simp add: DesignAssistant_applyAutoFix_def split: option.splits)

lemma DA_None: "DesignAssistant_applyAutoFix None i = None"
  by (simp add: DesignAssistant_applyAutoFix_def)

lemma VP_idempotent:
  assumes "code i \<noteq> ''DRINKAWARE_MISSING''"
  shows "ValidatorPanel_applyAutoFix (ValidatorPanel_applyAutoFix (Some l) i) i
         = ValidatorPanel_applyAutoFix (Some l) i"
proof -
  consider (a) "code i = ''TESCO_TAG_INVALID''" | (b) "code i = ''FONT_SIZE_TOO_SMALL''"
    | (c) "code i = ''SAFE_ZONE_TOP_VIOLATION''" | (d) "code i = ''SAFE_ZONE_BOTTOM_VIOLATION''"
    | (e) "code i = ''DRINKAWARE_COLOR_INVALID''" | (f) "code i = ''WCAG_CONTRAST_FAIL''"
    | (g) "code i \<notin> {''TESCO_TAG_INVALID'', ''FONT_SIZE_TOO_SMALL'', ''SAFE_ZONE_TOP_VIOLATION'',
      ''SAFE_ZONE_BOTTOM_VIOLATION'', ''DRINKAWARE_MISSING'', ''DRINKAWARE_COLOR_INVALID'',
      ''WCAG_CONTRAST_FAIL''}"
    using assms by blast
  then show ?thesis
  proof cases
    case a
    then show ?thesis by (simp add: VP_tesco_tag_invalid map_elements_idem)
  next
    case b
    then show ?thesis
      by (simp add: VP_font_size map_elements_idem is_text_def num_or0_def)
  next
    case c
    then show ?thesis
      by (simp add: VP_safe_zone_top map_elements_idem targets_def split: option.splits)
  next
    case d
    then show ?thesis
      by (simp add: VP_safe_zone_bottom map_elements_idem targets_def split: option.splits)
  next
    case e
    then show ?thesis by (simp add: VP_drinkaware_color map_elements_idem)
  next
    case f
    then show ?thesis
      by (simp add: VP_wcag bgColor_recolour map_elements_idem is_text_recolour)
  next
    case g
    from VP_unhandled [OF g] show ?thesis by simp
  qed
qed

lemma DA_idempotent:
  assumes "code i \<noteq> ''DRINKAWARE_MISSING''" and "code i \<noteq> ''TESCO_TAG_MISSING''"
  shows "DesignAssistant_applyAutoFix (DesignAssistant_applyAutoFix (Some l) i) i
         = DesignAssistant_applyAutoFix (Some l) i"
proof -
  consider (a) "code i = ''TESCO_TAG_INVALID''" | (b) "code i = ''FONT_SIZE_TOO_SMALL''"
    | (c) "code i = ''SAFE_ZONE_TOP_VIOLATION''" | (d) "code i = ''SAFE_ZONE_BOTTOM_VIOLATION''"
    | (e) "code i = ''DRINKAWARE_COLOR_INVALID''" | (f) "code i = ''WCAG_CONTRAST_FAIL''"
    | (g) "code i \<notin> {''TESCO_TAG_MISSING'', ''TESCO_TAG_INVALID'', ''FONT_SIZE_TOO_SMALL'',
      ''SAFE_ZONE_TOP_VIOLATION'', ''SAFE_ZONE_BOTTOM_VIOLATION'', ''DRINKAWARE_MISSING'',
      ''DRINKAWARE_COLOR_INVALID'', ''WCAG_CONTRAST_FAIL''}"
    using assms by blast
  then show ?thesis
  proof cases
    case a
    then show ?thesis by (simp add: DA_tesco_tag_invalid map_elements_idem)
  next
    case b
    then show ?thesis
      by (simp add: DA_font_size map_elements_idem is_text_def num_or0_def)
  next
    case c
    then show ?thesis
      by (simp add: DA_safe_zone_top map_elements_idem num_or0_def)
  next
    case d
    then show ?thesis
      by (simp add: DA_safe_zone_bottom map_elements_idem num_or0_def)
  next
    case e
    then show ?thesis by (simp add: DA_drinkaware_color map_elements_idem)
  next
    case f
    then show ?thesis
      by (simp add: DA_wcag bgColor_recolour map_elements_idem is_text_recolour)
  next
    case g
    from DA_unhandled [OF g] show ?thesis by simp
  qed
qed

section \<open>Parsing colours\<close>

lemma hex_digit_not_prefix:
  assumes "hex_digit c = Some d"
  shows "\<not> is_space c" and "c \<noteq> CHR ''-''" and "c \<noteq> CHR ''+''"
    and "c \<noteq> CHR ''x''" and "c \<noteq> CHR ''X''" and "\<not> is_line_terminator c"
    and "c \<noteq> CHR ''#''"
  using assms
  by (auto simp: hex_digit_def is_space_def is_line_terminator_def Let_def split: if_splits)

lemma parseInt16_pair:
  assumes "hex_digit a = Some x" and "hex_digit b = Some y"
  shows "parseInt16 [a, b] = Some (int (16 * x + y))"
  using assms hex_digit_not_prefix [OF assms(1)] hex_digit_not_prefix [OF assms(2)]
  by (simp add: parseInt16_def hex_value_def)

lemma is_hex6_shape:
  assumes "is_hex6 s"
  obtains a b c d e f ra rb rc rd re rf where "s = [CHR ''#'', a, b, c, d, e, f]"
    and "hex_digit a = Some ra" and "hex_digit b = Some rb" and "hex_digit c = Some rc"
    and "hex_digit d = Some rd" and "hex_digit e = Some re" and "hex_digit f = Some rf"
proof -
  from assms obtain ds where s: "s = CHR ''#'' # ds" and len: "length ds = 6"
    and hex: "list_all (\<lambda>c. hex_digit c \<noteq> None) ds"
    by (auto simp: is_hex6_def split: list.splits)
  from len obtain a b c d e f where ds: "ds = [a, b, c, d, e, f]"
    by (auto simp: length_Suc_conv eval_nat_numeral)
  with hex s that show thesis by auto
qed

lemma isLightColor_hex6:
  assumes "is_hex6 s"
  shows "ValidatorPanel_isLightColor s = (spec_brightness s > 128)"
    and "DesignAssistant_isLightColor s = (spec_brightness s > 128)"
proof -
  from assms obtain a b c d e f ra rb rc rd re rf where s: "s = [CHR ''#'', a, b, c, d, e, f]"
    and h: "hex_digit a = Some ra" "hex_digit b = Some rb" "hex_digit c = Some rc"
      "hex_digit d = Some rd" "hex_digit e = Some re" "hex_digit f = Some rf"
    by (rule is_hex6_shape)
  have p: "parseInt16 [a, b] = Some (int (16 * ra + rb))"
    "parseInt16 [c, d] = Some (int (16 * rc + rd))"
    "parseInt16 [e, f] = Some (int (16 * re + rf))"
    using h by (simp_all add: parseInt16_pair)
  have b: "spec_brightness s =
      (299 * real (16 * ra + rb) + 587 * real (16 * rc + rd) + 114 * real (16 * re + rf)) / 1000"
    using h by (simp add: s spec_brightness_def spec_channel_def hex_val_def)
  show "ValidatorPanel_isLightColor s = (spec_brightness s > 128)"
    unfolding b
    by (simp add: s ValidatorPanel_isLightColor_def substring_def p brightness_def gt_num_def
        mult.commute)
  show "DesignAssistant_isLightColor s = (spec_brightness s > 128)"
    unfolding b
    by (simp add: s DesignAssistant_isLightColor_def substr_def p brightness_def gt_num_def
        mult.commute)
qed

lemma map_elements_nth:
  "k < length (elements l) \<Longrightarrow> elements (map_elements f l) ! k = f (elements l ! k)"
  by (simp add: map_elements_def)

lemma map_elements_frame:
  "layout_id (map_elements f l) = layout_id l" "score (map_elements f l) = score l"
  "length (elements (map_elements f l)) = length (elements l)"
  by (simp_all add: map_elements_def)

section \<open>The two dispatch sites\<close>

text \<open>
  C2, as the code has it. ValidatorPanel and DesignAssistant return the same layout
  (or both return without an update) for every issue whose code is none of
  TESCO_TAG_MISSING, FONT_SIZE_TOO_SMALL, SAFE_ZONE_TOP_VIOLATION,
  SAFE_ZONE_BOTTOM_VIOLATION, DRINKAWARE_MISSING and WCAG_CONTRAST_FAIL; of the codes
  both handle, these are TESCO_TAG_INVALID and DRINKAWARE_COLOR_INVALID.
\<close>

theorem dispatch_sites_agree:
  assumes "code i \<notin> {''TESCO_TAG_MISSING'', ''FONT_SIZE_TOO_SMALL'', ''SAFE_ZONE_TOP_VIOLATION'',
      ''SAFE_ZONE_BOTTOM_VIOLATION'', ''DRINKAWARE_MISSING'', ''WCAG_CONTRAST_FAIL''}"
  shows "ValidatorPanel_applyAutoFix lo i = DesignAssistant_applyAutoFix lo i"
proof (cases lo)
  case None
  then show ?thesis by (simp add: VP_None DA_None)
next
  case (Some l)
  consider (a) "code i = ''TESCO_TAG_INVALID''" | (b) "code i = ''DRINKAWARE_COLOR_INVALID''"
    | (c) "code i \<notin> {''TESCO_TAG_MISSING'', ''TESCO_TAG_INVALID'', ''FONT_SIZE_TOO_SMALL'',
      ''SAFE_ZONE_TOP_VIOLATION'', ''SAFE_ZONE_BOTTOM_VIOLATION'', ''DRINKAWARE_MISSING'',
      ''DRINKAWARE_COLOR_INVALID'', ''WCAG_CONTRAST_FAIL''}"
    using assms by blast
  then show ?thesis
  proof cases
    case a
    then show ?thesis by (simp add: Some VP_tesco_tag_invalid DA_tesco_tag_invalid)
  next
    case b
    then show ?thesis by (simp add: Some VP_drinkaware_color DA_drinkaware_color)
  next
    case c
    then have "code i \<notin> {''TESCO_TAG_INVALID'', ''FONT_SIZE_TOO_SMALL'',
      ''SAFE_ZONE_TOP_VIOLATION'', ''SAFE_ZONE_BOTTOM_VIOLATION'', ''DRINKAWARE_MISSING'',
      ''DRINKAWARE_COLOR_INVALID'', ''WCAG_CONTRAST_FAIL''}" by blast
    from VP_unhandled [OF this] DA_unhandled [OF c] show ?thesis by simp
  qed
qed

theorem dispatch_sites_agree_witness:
  "code (mk_issue ''TESCO_TAG_INVALID'' None) = ''TESCO_TAG_INVALID''
   \<and> ValidatorPanel_applyAutoFix (Some default_layout) (mk_issue ''TESCO_TAG_INVALID'' None)
     = DesignAssistant_applyAutoFix (Some default_layout) (mk_issue ''TESCO_TAG_INVALID'' None)"
  using dispatch_sites_agree [of "mk_issue ''TESCO_TAG_INVALID'' None" "Some default_layout"]
  by (simp add: mk_issue_def)

theorem dispatch_sites_agree_counterexample:
  "ValidatorPanel_applyAutoFix (Some sample_layout) (mk_issue ''FONT_SIZE_TOO_SMALL'' None)
     \<noteq> DesignAssistant_applyAutoFix (Some sample_layout) (mk_issue ''FONT_SIZE_TOO_SMALL'' None)
   \<and> ValidatorPanel_applyAutoFix (Some sample_layout)
       (mk_issue ''SAFE_ZONE_TOP_VIOLATION'' (Some ''headline-1''))
     \<noteq> DesignAssistant_applyAutoFix (Some sample_layout)
       (mk_issue ''SAFE_ZONE_TOP_VIOLATION'' (Some ''headline-1''))
   \<and> ValidatorPanel_applyAutoFix (Some sample_layout)
       (mk_issue ''SAFE_ZONE_BOTTOM_VIOLATION'' (Some ''headline-1''))
     \<noteq> DesignAssistant_applyAutoFix (Some sample_layout)
       (mk_issue ''SAFE_ZONE_BOTTOM_VIOLATION'' (Some ''headline-1''))
   \<and> ValidatorPanel_applyAutoFix (Some sample_layout) (mk_issue ''DRINKAWARE_MISSING'' None)
     \<noteq> DesignAssistant_applyAutoFix (Some sample_layout) (mk_issue ''DRINKAWARE_MISSING'' None)
   \<and> ValidatorPanel_applyAutoFix (Some sample_layout) (mk_issue ''WCAG_CONTRAST_FAIL'' None)
     \<noteq> DesignAssistant_applyAutoFix (Some sample_layout) (mk_issue ''WCAG_CONTRAST_FAIL'' None)"
proof -
  have light: "ValidatorPanel_isLightColor ''#FFFFFF''" "DesignAssistant_isLightColor ''#FFFFFF''"
    by (simp_all add: ValidatorPanel_isLightColor_def DesignAssistant_isLightColor_def
        substring_def substr_def brightness_def gt_num_def parseInt16_def hex_digit_def
        hex_value_def is_space_def)
  have bg: "bgColor sample_layout = ''#FFFFFF''"
    by (simp add: bgColor_def sample_layout_def mk_element_def str_or_def)
  have 1: "ValidatorPanel_applyAutoFix (Some sample_layout) (mk_issue ''FONT_SIZE_TOO_SMALL'' None)
     \<noteq> DesignAssistant_applyAutoFix (Some sample_layout) (mk_issue ''FONT_SIZE_TOO_SMALL'' None)"
    by (simp add: VP_font_size DA_font_size mk_issue_def sample_layout_def map_elements_def
        mk_element_def is_text_def num_or0_def)
  have 2: "ValidatorPanel_applyAutoFix (Some sample_layout)
       (mk_issue ''SAFE_ZONE_TOP_VIOLATION'' (Some ''headline-1''))
     \<noteq> DesignAssistant_applyAutoFix (Some sample_layout)
       (mk_issue ''SAFE_ZONE_TOP_VIOLATION'' (Some ''headline-1''))"
    by (simp add: VP_safe_zone_top DA_safe_zone_top mk_issue_def sample_layout_def
        map_elements_def mk_element_def targets_def num_or0_def)
  have 3: "ValidatorPanel_applyAutoFix (Some sample_layout)
       (mk_issue ''SAFE_ZONE_BOTTOM_VIOLATION'' (Some ''headline-1''))
     \<noteq> DesignAssistant_applyAutoFix (Some sample_layout)
       (mk_issue ''SAFE_ZONE_BOTTOM_VIOLATION'' (Some ''headline-1''))"
    by (simp add: VP_safe_zone_bottom DA_safe_zone_bottom mk_issue_def sample_layout_def
        map_elements_def mk_element_def targets_def num_or0_def)
  have 4: "ValidatorPanel_applyAutoFix (Some sample_layout) (mk_issue ''DRINKAWARE_MISSING'' None)
     \<noteq> DesignAssistant_applyAutoFix (Some sample_layout) (mk_issue ''DRINKAWARE_MISSING'' None)"
    by (simp add: ValidatorPanel_applyAutoFix_def DesignAssistant_applyAutoFix_def mk_issue_def
        mk_element_def sample_layout_def)
  have 5: "ValidatorPanel_applyAutoFix (Some sample_layout) (mk_issue ''WCAG_CONTRAST_FAIL'' None)
     \<noteq> DesignAssistant_applyAutoFix (Some sample_layout) (mk_issue ''WCAG_CONTRAST_FAIL'' None)"
    by (simp add: VP_wcag DA_wcag mk_issue_def bg light)
       (simp add: sample_layout_def map_elements_def mk_element_def is_text_def)
  from 1 2 3 4 5 show ?thesis by blast
qed

section \<open>Idempotence of the fixes\<close>

text \<open>
  C9, as the code has it. At both dispatch sites, applying the fix for an issue to the
  layout the fix has produced gives that layout again, for every issue whose code is
  not DRINKAWARE_MISSING or TESCO_TAG_MISSING; those two append an element at each
  application.
\<close>

theorem autofix_idempotent:
  assumes "code i \<noteq> ''DRINKAWARE_MISSING''" and "code i \<noteq> ''TESCO_TAG_MISSING''"
  shows "ValidatorPanel_applyAutoFix (ValidatorPanel_applyAutoFix (Some l) i) i
           = ValidatorPanel_applyAutoFix (Some l) i
         \<and> DesignAssistant_applyAutoFix (DesignAssistant_applyAutoFix (Some l) i) i
           = DesignAssistant_applyAutoFix (Some l) i"
  using assms by (simp add: VP_idempotent DA_idempotent)

theorem autofix_idempotent_witness:
  "code (mk_issue ''FONT_SIZE_TOO_SMALL'' None) \<noteq> ''DRINKAWARE_MISSING''
   \<and> code (mk_issue ''FONT_SIZE_TOO_SMALL'' None) \<noteq> ''TESCO_TAG_MISSING''
   \<and> ValidatorPanel_applyAutoFix (Some sample_layout) (mk_issue ''FONT_SIZE_TOO_SMALL'' None)
       \<noteq> None
   \<and> ValidatorPanel_applyAutoFix
       (ValidatorPanel_applyAutoFix (Some sample_layout) (mk_issue ''FONT_SIZE_TOO_SMALL'' None))
       (mk_issue ''FONT_SIZE_TOO_SMALL'' None)
     = ValidatorPanel_applyAutoFix (Some sample_layout) (mk_issue ''FONT_SIZE_TOO_SMALL'' None)
   \<and> DesignAssistant_applyAutoFix
       (DesignAssistant_applyAutoFix (Some sample_layout) (mk_issue ''FONT_SIZE_TOO_SMALL'' None))
       (mk_issue ''FONT_SIZE_TOO_SMALL'' None)
     = DesignAssistant_applyAutoFix (Some sample_layout) (mk_issue ''FONT_SIZE_TOO_SMALL'' None)"
  using autofix_idempotent [of "mk_issue ''FONT_SIZE_TOO_SMALL'' None" sample_layout]
  by (simp add: mk_issue_def VP_font_size)

theorem autofix_idempotent_counterexample:
  "ValidatorPanel_applyAutoFix
       (ValidatorPanel_applyAutoFix (Some sample_layout) (mk_issue ''DRINKAWARE_MISSING'' None))
       (mk_issue ''DRINKAWARE_MISSING'' None)
     \<noteq> ValidatorPanel_applyAutoFix (Some sample_layout) (mk_issue ''DRINKAWARE_MISSING'' None)
   \<and> DesignAssistant_applyAutoFix
       (DesignAssistant_applyAutoFix (Some sample_layout) (mk_issue ''DRINKAWARE_MISSING'' None))
       (mk_issue ''DRINKAWARE_MISSING'' None)
     \<noteq> DesignAssistant_applyAutoFix (Some sample_layout) (mk_issue ''DRINKAWARE_MISSING'' None)"
  by (simp add: ValidatorPanel_applyAutoFix_def DesignAssistant_applyAutoFix_def mk_issue_def
      sample_layout_def)

section \<open>The contrast fix\<close>

lemma recolour_spec:
  "\<exists>l'. Some (map_elements (\<lambda>e. if is_text e then e\<lparr>el_color := Some c\<rparr> else e) l) = Some l'
     \<and> layout_id l' = layout_id l \<and> score l' = score l
     \<and> length (elements l') = length (elements l)
     \<and> (\<forall>k<length (elements l).
           elements l' ! k =
             (if is_text (elements l ! k) then (elements l ! k)\<lparr>el_color := Some c\<rparr>
              else elements l ! k))"
  by (simp add: map_elements_frame map_elements_nth)

lemma bgColor_default:
  "find (\<lambda>e. el_type e = ''background'') (elements l) = None \<Longrightarrow> bgColor l = ''#FFFFFF''"
  "find (\<lambda>e. el_type e = ''background'') (elements l) = Some e \<Longrightarrow> el_color e = None
     \<Longrightarrow> bgColor l = ''#FFFFFF''"
  by (simp_all add: bgColor_def str_or_def)

text \<open>
  C8, as the code has it. The WCAG_CONTRAST_FAIL fix keeps the layout's id, score and
  number of elements, leaves every element that is not a headline or subhead as it
  is, and changes nothing but the colour of each headline and subhead: in
  ValidatorPanel to \<open>#000000\<close> on a light background and \<open>#FFFFFF\<close> otherwise, in
  DesignAssistant to \<open>#1F2937\<close> on a light background and \<open>#FFFFFF\<close> otherwise. For
  a background colour of six hexadecimal digits, light means that the brightness
  \<open>(299 r + 587 g + 114 b) / 1000\<close> exceeds 128; the background colour is that of the
  first background element and \<open>#FFFFFF\<close> when that element or its colour is missing.
\<close>

theorem wcag_contrast_fix:
  assumes "code i = ''WCAG_CONTRAST_FAIL''"
  shows "(\<exists>l'. ValidatorPanel_applyAutoFix (Some l) i = Some l'
            \<and> layout_id l' = layout_id l \<and> score l' = score l
            \<and> length (elements l') = length (elements l)
            \<and> (\<forall>k<length (elements l).
                  elements l' ! k =
                    (if is_text (elements l ! k)
                     then (elements l ! k)\<lparr>el_color :=
                            Some (if ValidatorPanel_isLightColor (bgColor l)
                                  then ''#000000'' else ''#FFFFFF'')\<rparr>
                     else elements l ! k)))
         \<and> (\<exists>l'. DesignAssistant_applyAutoFix (Some l) i = Some l'
            \<and> layout_id l' = layout_id l \<and> score l' = score l
            \<and> length (elements l') = length (elements l)
            \<and> (\<forall>k<length (elements l).
                  elements l' ! k =
                    (if is_text (elements l ! k)
                     then (elements l ! k)\<lparr>el_color :=
                            Some (if DesignAssistant_isLightColor (bgColor l)
                                  then ''#1F2937'' else ''#FFFFFF'')\<rparr>
                     else elements l ! k)))
         \<and> (is_hex6 (bgColor l) \<longrightarrow>
              ValidatorPanel_isLightColor (bgColor l) = (spec_brightness (bgColor l) > 128)
              \<and> DesignAssistant_isLightColor (bgColor l) = (spec_brightness (bgColor l) > 128))
         \<and> (find (\<lambda>e. el_type e = ''background'') (elements l) = None \<longrightarrow>
              bgColor l = ''#FFFFFF'')
         \<and> (\<forall>e. find (\<lambda>e. el_type e = ''background'') (elements l) = Some e \<and> el_color e = None
              \<longrightarrow> bgColor l = ''#FFFFFF'')"
proof -
  have a: "\<exists>l'. ValidatorPanel_applyAutoFix (Some l) i = Some l'
            \<and> layout_id l' = layout_id l \<and> score l' = score l
            \<and> length (elements l') = length (elements l)
            \<and> (\<forall>k<length (elements l).
                  elements l' ! k =
                    (if is_text (elements l ! k)
                     then (elements l ! k)\<lparr>el_color :=
                            Some (if ValidatorPanel_isLightColor (bgColor l)
                                  then ''#000000'' else ''#FFFFFF'')\<rparr>
                     else elements l ! k))"
    unfolding VP_wcag [OF assms] by (rule recolour_spec)
  have b: "\<exists>l'. DesignAssistant_applyAutoFix (Some l) i = Some l'
            \<and> layout_id l' = layout_id l \<and> score l' = score l
            \<and> length (elements l') = length (elements l)
            \<and> (\<forall>k<length (elements l).
                  elements l' ! k =
                    (if is_text (elements l ! k)
                     then (elements l ! k)\<lparr>el_color :=
                            Some (if DesignAssistant_isLightColor (bgColor l)
                                  then ''#1F2937'' else ''#FFFFFF'')\<rparr>
                     else elements l ! k))"
    unfolding DA_wcag [OF assms] by (rule recolour_spec)
  from a b show ?thesis
    by (simp add: isLightColor_hex6 bgColor_default)
qed

theorem wcag_contrast_fix_witness:
  "code (mk_issue ''WCAG_CONTRAST_FAIL'' None) = ''WCAG_CONTRAST_FAIL''
   \<and> is_hex6 (bgColor sample_layout) \<and> spec_brightness (bgColor sample_layout) > 128
   \<and> is_text (elements sample_layout ! 1)
   \<and> ValidatorPanel_applyAutoFix (Some sample_layout) (mk_issue ''WCAG_CONTRAST_FAIL'' None)
      = Some (sample_layout\<lparr>elements :=
          [elements sample_layout ! 0,
           (elements sample_layout ! 1)\<lparr>el_color := Some ''#000000''\<rparr>]\<rparr>)"
proof -
  have bg: "bgColor sample_layout = ''#FFFFFF''"
    by (simp add: bgColor_def sample_layout_def mk_element_def str_or_def)
  have hex: "is_hex6 ''#FFFFFF''"
    by (simp add: is_hex6_def hex_digit_def)
  have br: "spec_brightness ''#FFFFFF'' = 255"
    by (simp add: spec_brightness_def spec_channel_def hex_val_def hex_digit_def)
  have shape: "is_text (elements sample_layout ! 1)" "\<not> is_text (elements sample_layout ! 0)"
    "length (elements sample_layout) = 2"
    by (simp_all add: sample_layout_def mk_element_def is_text_def)
  have c: "code (mk_issue ''WCAG_CONTRAST_FAIL'' None) = ''WCAG_CONTRAST_FAIL''"
    by (simp add: mk_issue_def)
  from wcag_contrast_fix [OF c, of sample_layout]
  obtain l' where l': "ValidatorPanel_applyAutoFix (Some sample_layout)
        (mk_issue ''WCAG_CONTRAST_FAIL'' None) = Some l'"
    and frame: "layout_id l' = layout_id sample_layout" "score l' = score sample_layout"
      "length (elements l') = length (elements sample_layout)"
    and each: "\<forall>k<length (elements sample_layout).
        elements l' ! k =
          (if is_text (elements sample_layout ! k)
           then (elements sample_layout ! k)\<lparr>el_color :=
                  Some (if ValidatorPanel_isLightColor (bgColor sample_layout)
                        then ''#000000'' else ''#FFFFFF'')\<rparr>
           else elements sample_layout ! k)"
    and light: "ValidatorPanel_isLightColor (bgColor sample_layout)
        = (spec_brightness (bgColor sample_layout) > 128)"
    using hex bg by auto
  from light have isl: "ValidatorPanel_isLightColor (bgColor sample_layout)"
    by (simp add: bg br)
  from each shape isl have e0: "elements l' ! 0 = elements sample_layout ! 0"
    and e1: "elements l' ! 1 = (elements sample_layout ! 1)\<lparr>el_color := Some ''#000000''\<rparr>"
    by simp_all
  from frame(3) shape(3) have "elements l' = [elements l' ! 0, elements l' ! 1]"
    by (cases "elements l'"; cases "tl (elements l')") auto
  with e0 e1 have "elements l' =
      [elements sample_layout ! 0, (elements sample_layout ! 1)\<lparr>el_color := Some ''#000000''\<rparr>]"
    by simp
  with frame have "l' = sample_layout\<lparr>elements :=
          [elements sample_layout ! 0,
           (elements sample_layout ! 1)\<lparr>el_color := Some ''#000000''\<rparr>]\<rparr>"
    by (cases l'; cases sample_layout) simp
  with l' c hex br shape(1) show ?thesis
    by (simp add: bg)
qed

theorem wcag_contrast_fix_counterexample:
  "spec_brightness (bgColor sample_layout) > 128
   \<and> is_text (elements sample_layout ! 1)
   \<and> DesignAssistant_applyAutoFix (Some sample_layout) (mk_issue ''WCAG_CONTRAST_FAIL'' None)
      = Some (sample_layout\<lparr>elements :=
          [elements sample_layout ! 0,
           (elements sample_layout ! 1)\<lparr>el_color := Some ''#1F2937''\<rparr>]\<rparr>)
   \<and> DesignAssistant_applyAutoFix (Some sample_layout) (mk_issue ''WCAG_CONTRAST_FAIL'' None)
      \<noteq> Some (sample_layout\<lparr>elements :=
          [elements sample_layout ! 0,
           (elements sample_layout ! 1)\<lparr>el_color := Some ''#000000''\<rparr>]\<rparr>)"
proof -
  have bg: "bgColor sample_layout = ''#FFFFFF''"
    by (simp add: bgColor_def sample_layout_def mk_element_def str_or_def)
  have br: "spec_brightness ''#FFFFFF'' = 255"
    by (simp add: spec_brightness_def spec_channel_def hex_val_def hex_digit_def)
  have light: "DesignAssistant_isLightColor ''#FFFFFF''"
    by (simp add: DesignAssistant_isLightColor_def substr_def brightness_def gt_num_def
        parseInt16_def hex_digit_def hex_value_def is_space_def)
  have c: "code (mk_issue ''WCAG_CONTRAST_FAIL'' None) = ''WCAG_CONTRAST_FAIL''"
    by (simp add: mk_issue_def)
  show ?thesis
    unfolding DA_wcag [OF c] bg
    by (simp add: br light) (simp add: sample_layout_def map_elements_def mk_element_def is_text_def)
qed

section \<open>Contrast\<close>

lemma getLuminance_hex6:
  assumes "s = [CHR ''#'', a, b, c, d, e, f]"
    and "hex_digit a = Some ra" and "hex_digit b = Some rb" and "hex_digit c = Some rc"
    and "hex_digit d = Some rd" and "hex_digit e = Some re" and "hex_digit f = Some rf"
  shows "getLuminance s =
     Some (0.2126 * linearize (real (16 * ra + rb) / 255)
           + 0.7152 * linearize (real (16 * rc + rd) / 255)
           + 0.0722 * linearize (real (16 * re + rf) / 255))"
proof -
  have p: "parseInt16 [a, b] = Some (int (16 * ra + rb))"
    "parseInt16 [c, d] = Some (int (16 * rc + rd))"
    "parseInt16 [e, f] = Some (int (16 * re + rf))"
    using assms by (simp_all add: parseInt16_pair)
  have m: "match_pairs [a, b, c, d, e, f] = [[a, b], [c, d], [e, f]]"
    using assms(2-7) by (simp add: hex_digit_not_prefix)
  show ?thesis
    by (simp add: assms(1) getLuminance_def m p del: match_pairs.simps)
qed

lemma getLuminance_defined:
  assumes "is_hex6 s"
  shows "\<exists>v. getLuminance s = Some v"
proof -
  from assms obtain a b c d e f ra rb rc rd re rf where "s = [CHR ''#'', a, b, c, d, e, f]"
    and "hex_digit a = Some ra" "hex_digit b = Some rb" "hex_digit c = Some rc"
      "hex_digit d = Some rd" "hex_digit e = Some re" "hex_digit f = Some rf"
    by (rule is_hex6_shape)
  then show ?thesis
    by (simp add: getLuminance_hex6)
qed

lemma calculateContrastRatio_defined:
  assumes "is_hex6 s" and "is_hex6 u"
  shows "\<exists>r. calculateContrastRatio s u = Some r"
proof -
  from getLuminance_defined [OF assms(1)] getLuminance_defined [OF assms(2)]
  show ?thesis
    by (auto simp: calculateContrastRatio_def Let_def)
qed

text \<open>
  C6. For six-digit colours the contrast ratio is a number, and \<open>meetsWCAGAA\<close> holds
  exactly when that ratio is at least 4.5 for a font size below 24, and at least 3
  for a font size of 24 or more.
\<close>

theorem meetsWCAGAA_iff:
  assumes "is_hex6 textColor" and "is_hex6 bgCol"
  shows "\<exists>r. calculateContrastRatio textColor bgCol = Some r
           \<and> (meetsWCAGAA textColor bgCol fontSize
                \<longleftrightarrow> (if fontSize < 24 then r \<ge> 4.5 else r \<ge> 3))"
proof -
  from calculateContrastRatio_defined [OF assms]
  obtain r where "calculateContrastRatio textColor bgCol = Some r" by blast
  then show ?thesis
    by (auto simp: meetsWCAGAA_def Let_def)
qed

lemma luminance_white: "getLuminance ''#FFFFFF'' = Some 1"
proof -
  have "getLuminance ''#FFFFFF'' =
     Some (0.2126 * linearize (real (16 * 15 + 15) / 255)
           + 0.7152 * linearize (real (16 * 15 + 15) / 255)
           + 0.0722 * linearize (real (16 * 15 + 15) / 255))"
    by (rule getLuminance_hex6, rule refl) (simp_all add: hex_digit_def)
  then show ?thesis
    by (simp add: linearize_def)
qed

lemma luminance_black: "getLuminance ''#000000'' = Some 0"
proof -
  have "getLuminance ''#000000'' =
     Some (0.2126 * linearize (real (16 * 0 + 0) / 255)
           + 0.7152 * linearize (real (16 * 0 + 0) / 255)
           + 0.0722 * linearize (real (16 * 0 + 0) / 255))"
    by (rule getLuminance_hex6, rule refl) (simp_all add: hex_digit_def)
  then show ?thesis
    by (simp add: linearize_def)
qed

theorem meetsWCAGAA_iff_witness:
  "is_hex6 ''#000000'' \<and> is_hex6 ''#FFFFFF''
   \<and> calculateContrastRatio ''#000000'' ''#FFFFFF'' = Some 21
   \<and> meetsWCAGAA ''#000000'' ''#FFFFFF'' 16"
proof -
  have h: "is_hex6 ''#000000''" "is_hex6 ''#FFFFFF''"
    by (simp_all add: is_hex6_def hex_digit_def)
  have r: "calculateContrastRatio ''#000000'' ''#FFFFFF'' = Some 21"
    by (simp add: calculateContrastRatio_def luminance_white luminance_black)
  from meetsWCAGAA_iff [OF h, of 16] h r show ?thesis by simp
qed

lemma powr_cube_bound:
  fixes x :: real
  assumes "0 < x" and "x \<le> 1"
  shows "x ^ 3 \<le> x powr 2.4" and "x powr 2.4 \<le> 1"
proof -
  have "x powr 3 \<le> x powr 2.4"
    using assms by (intro powr_mono') simp_all
  moreover have "x powr 3 = x ^ 3"
    using assms(1) by (simp add: powr_numeral)
  ultimately show "x ^ 3 \<le> x powr 2.4" by simp
  show "x powr 2.4 \<le> 1"
    using assms by (intro powr_le1) simp_all
qed

lemma luminance_FEFEFE:
  "\<exists>v. getLuminance ''#FEFEFE'' = Some v \<and> 0.95 \<le> v \<and> v \<le> 1"
proof -
  define x :: real where "x = (254 / 255 + 0.055) / 1.055"
  have g: "getLuminance ''#FEFEFE'' =
     Some (0.2126 * linearize (real (16 * 15 + 14) / 255)
           + 0.7152 * linearize (real (16 * 15 + 14) / 255)
           + 0.0722 * linearize (real (16 * 15 + 14) / 255))"
    by (rule getLuminance_hex6, rule refl) (simp_all add: hex_digit_def)
  have l: "linearize (real (16 * 15 + 14) / 255) = x powr 2.4"
    by (simp add: linearize_def x_def)
  have x: "0 < x" "x \<le> 1" "0.95 \<le> x ^ 3"
    by (simp_all add: x_def power3_eq_cube)
  from powr_cube_bound [OF x(1,2)] x(3) have "0.95 \<le> x powr 2.4" "x powr 2.4 \<le> 1"
    by simp_all
  then show ?thesis
    unfolding g l by simp
qed

lemma luminance_CCCCCC:
  "\<exists>v. getLuminance ''#CCCCCC'' = Some v \<and> 0.5 \<le> v \<and> v \<le> 1"
proof -
  define x :: real where "x = (204 / 255 + 0.055) / 1.055"
  have g: "getLuminance ''#CCCCCC'' =
     Some (0.2126 * linearize (real (16 * 12 + 12) / 255)
           + 0.7152 * linearize (real (16 * 12 + 12) / 255)
           + 0.0722 * linearize (real (16 * 12 + 12) / 255))"
    by (rule getLuminance_hex6, rule refl) (simp_all add: hex_digit_def)
  have l: "linearize (real (16 * 12 + 12) / 255) = x powr 2.4"
    by (simp add: linearize_def x_def)
  have x: "0 < x" "x \<le> 1" "0.5 \<le> x ^ 3"
    by (simp_all add: x_def power3_eq_cube)
  from powr_cube_bound [OF x(1,2)] x(3) have "0.5 \<le> x powr 2.4" "x powr 2.4 \<le> 1"
    by simp_all
  then show ?thesis
    unfolding g l by simp
qed

text \<open>
  C7. The anchor values of the contrast calculator: white on black is 21, white on
  \<open>#FEFEFE\<close> is below 1.1, and \<open>#CCCCCC\<close> on white is below 4.5.
\<close>

theorem contrast_anchor_values:
  "calculateContrastRatio ''#FFFFFF'' ''#000000'' = Some 21
   \<and> (\<exists>r. calculateContrastRatio ''#FFFFFF'' ''#FEFEFE'' = Some r \<and> r < 1.1)
   \<and> (\<exists>r. calculateContrastRatio ''#CCCCCC'' ''#FFFFFF'' = Some r \<and> r < 4.5)"
proof -
  have a: "calculateContrastRatio ''#FFFFFF'' ''#000000'' = Some 21"
    by (simp add: calculateContrastRatio_def luminance_white luminance_black)
  obtain v where v: "getLuminance ''#FEFEFE'' = Some v" "0.95 \<le> v" "v \<le> 1"
    using luminance_FEFEFE by blast
  have rv: "calculateContrastRatio ''#FFFFFF'' ''#FEFEFE'' = Some ((1 + 0.05) / (v + 0.05))"
    using v(1,3) by (simp add: calculateContrastRatio_def luminance_white max_def min_def)
  have "(1 + 0.05) / (v + 0.05) < 1.1"
    using v(2) by (simp add: field_simps)
  with rv have b: "\<exists>r. calculateContrastRatio ''#FFFFFF'' ''#FEFEFE'' = Some r \<and> r < 1.1"
    by blast
  obtain u where u: "getLuminance ''#CCCCCC'' = Some u" "0.5 \<le> u" "u \<le> 1"
    using luminance_CCCCCC by blast
  have ru: "calculateContrastRatio ''#CCCCCC'' ''#FFFFFF'' = Some ((1 + 0.05) / (u + 0.05))"
    using u(1,3) by (simp add: calculateContrastRatio_def luminance_white max_def min_def)
  have "(1 + 0.05) / (u + 0.05) < 4.5"
    using u(2) by (simp add: field_simps)
  with ru have c: "\<exists>r. calculateContrastRatio ''#CCCCCC'' ''#FFFFFF'' = Some r \<and> r < 4.5"
    by blast
  from a b c show ?thesis by blast
qed

end
